theory Spec2Isabelle
  imports Complex_Main "HOL-Library.Word" "HOL-Library.Product_Lexorder"
begin

unbundle bit_operations_syntax

chapter \<open>The expression evaluator of the debugger (\<^verbatim>\<open>pkg/proc/eval.go\<close>)\<close>

section \<open>Machine integers\<close>

text \<open>
  Go's \<^verbatim>\<open>uint64\<close> and \<^verbatim>\<open>int64\<close> are 64-bit words, and \<^verbatim>\<open>int\<close> is 64 bits wide on the
  platforms modelled here. A signed value is the same word read with \<open>sint\<close>, so the
  conversions \<^verbatim>\<open>uint64(x)\<close>, \<^verbatim>\<open>int64(x)\<close> and \<^verbatim>\<open>int(x)\<close> between them keep the bits.
  Signed comparisons are written on \<open>sint\<close>.
\<close>

type_synonym uint64 = "64 word"
type_synonym int64 = "64 word"
type_synonym go_int = "64 word"

section \<open>Data model\<close>

subsection \<open>Kinds, operator tokens, constants, type descriptors\<close>

text \<open>\<^verbatim>\<open>reflect.Kind\<close>, in the order of the Go library.\<close>

datatype Kind =
    Invalid | Bool | Int | Int8 | Int16 | Int32 | Int64
  | Uint | Uint8 | Uint16 | Uint32 | Uint64 | Uintptr
  | Float32 | Float64 | Complex64 | Complex128
  | Array | Chan | Func | Interface | Map | Ptr | Slice | String | Struct | UnsafePointer

text \<open>
  \<^verbatim>\<open>token.Token\<close>: the six comparison operators, and the arithmetic operators that reach
  the evaluator (they are no comparison, which is all \<^verbatim>\<open>compareOp\<close> asks of them).
\<close>

datatype Token = EQL | LSS | GTR | NEQ | LEQ | GEQ | ADD | SUB | MUL | QUO | REM | SHL | SHR

text \<open>
  \<^verbatim>\<open>constant.Value\<close> of \<^verbatim>\<open>go/constant\<close>: arbitrary-precision constants. A field of this
  type that is \<^verbatim>\<open>nil\<close> is \<open>None\<close>.
\<close>

datatype constant_Kind = Unknown | CBool | CString | CInt | CFloat | CComplex

datatype constant_Value =
    MakeUnknown | MakeBool bool | MakeString string | MakeInt int
  | MakeFloat rat | MakeComplex rat rat

fun constant_Kind_of :: "constant_Value \<Rightarrow> constant_Kind" where
  "constant_Kind_of MakeUnknown = Unknown"
| "constant_Kind_of (MakeBool _) = CBool"
| "constant_Kind_of (MakeString _) = CString"
| "constant_Kind_of (MakeInt _) = CInt"
| "constant_Kind_of (MakeFloat _) = CFloat"
| "constant_Kind_of (MakeComplex _ _) = CComplex"

text \<open>
  The type descriptors of package \<^verbatim>\<open>godwarf\<close>, as far as the evaluator tells them apart
  by a type switch. Every descriptor carries the name its \<^verbatim>\<open>String()\<close> method prints.
\<close>

datatype Type =
    IntType string int64
  | UintType string int64
  | FloatType string int64
  | ComplexType string int64
  | BoolType string
  | StringType string
  | PtrType string Type
  | SliceType string Type
  | ArrayType string Type int64
  | TypedefType string Type
  | MapType string
  | ChanType string
  | StructType string
  | InterfaceType string
  | FuncType string

fun Type_String :: "Type \<Rightarrow> string" where
  "Type_String (IntType n _) = n"
| "Type_String (UintType n _) = n"
| "Type_String (FloatType n _) = n"
| "Type_String (ComplexType n _) = n"
| "Type_String (BoolType n) = n"
| "Type_String (StringType n) = n"
| "Type_String (PtrType n _) = n"
| "Type_String (SliceType n _) = n"
| "Type_String (ArrayType n _ _) = n"
| "Type_String (TypedefType n _) = n"
| "Type_String (MapType n) = n"
| "Type_String (ChanType n) = n"
| "Type_String (StructType n) = n"
| "Type_String (InterfaceType n) = n"
| "Type_String (FuncType n) = n"

text \<open>
  Modelled from the spec: \<^verbatim>\<open>resolveTypedef\<close> is declared outside \<^verbatim>\<open>eval.go\<close>; the spec
  calls its result the resolved, typedef-stripped type.
\<close>

fun resolveTypedef :: "Type \<Rightarrow> Type" where
  "resolveTypedef (TypedefType _ t) = resolveTypedef t"
| "resolveTypedef t = t"

subsection \<open>Errors\<close>

text \<open>
  One constructor for each error message of the functions below. Expressions appear in
  messages as their printed text. A Go panic is the value \<open>Panic\<close>: the function stops
  there as it does on a returned error. \<open>ReadError\<close> stands for the errors that memory
  and debug-information reads put into a Value's \<^verbatim>\<open>Unreadable\<close> slot.
\<close>

datatype error =
    IndexOutOfBounds
  | StringTooLongForComparison
  | ArrayTooLongForComparison
  | StructureTooDeepForComparison
  | OperatorNotDefinedOn Token Kind
  | CanNotCompareVariables Kind
  | UnimplementedComparison Kind
  | Recovered string
  | CanNotAccessUnreadableMap "error option"
  | KeyNotFound
  | TypeConvErr "Type option" "Type option"
  | MismatchedTypesNil string
  | CanNotConvertConstantTo "constant_Value option" string
  | CanNotConvertConstantToInt "constant_Value option"
  | CanNotConvertTypeToInt string
  | CanNotSlice string
  | CanNotSliceType string "Type option"
  | SecondSliceArgumentMustBeEmpty
  | MapIndexOutOfBounds
  | WrongStackSizeAtEnd nat
  | CouldNotFindSymbolValue string
  | NoAddressForEscapedVariable
  | UnableToFindFunctionContext
  | ReadError string
  | Panic string

subsection \<open>Values\<close>

text \<open>
  Modelled from the spec: the flag constants are declared outside \<^verbatim>\<open>eval.go\<close>; the spec
  lists them as an independently combinable bitset, so \<^verbatim>\<open>Flags\<close> is the set of the flags
  that are on: \<^verbatim>\<open>v.Flags&F != 0\<close> is \<open>F \<in> Flags\<close> and \<^verbatim>\<open>v.Flags |= F\<close> is \<open>insert F\<close>.
\<close>

datatype variableFlags =
    VariableEscaped | VariableShadowed | VariableConstant | VariableArgument
  | VariableReturnArgument | VariableFakeAddress | VariableCPtr | VariableCPURegister

text \<open>A memory accessor and a register are handles.\<close>

datatype MemoryReadWriter = MemoryReadWriter nat

text \<open>
  The fields of \<^verbatim>\<open>Variable\<close> that the functions below read or write. \<^verbatim>\<open>Children\<close> is
  kept beside the record, because it holds Values again.
\<close>

record VariableFields =
  Addr :: uint64
  Name :: string
  DwarfType :: "Type option"
  RealType :: "Type option"
  Kind :: Kind
  mem :: MemoryReadWriter
  Value :: "constant_Value option"
  Len :: int64
  Cap :: int64
  Flags :: "variableFlags set"
  Base :: uint64
  stride :: int64
  fieldType :: "Type option"
  loaded :: bool
  Unreadable :: "error option"
  DeclLine :: int64
  mapSkip :: go_int
  reg :: "nat option"

datatype Variable = Variable (fld: VariableFields) (Children: "Variable list")

text \<open>
  A \<^verbatim>\<open>*Variable\<close> that is compared by identity with the package-level \<^verbatim>\<open>nilVariable\<close> is
  either that one or a reference to another Value. A pointer that may be \<^verbatim>\<open>nil\<close> is an
  option of it.
\<close>

datatype VarRef = nilVariable | Ref Variable

text \<open>
  Modelled from the spec: the declaration of \<^verbatim>\<open>nilVariable\<close> is outside \<^verbatim>\<open>eval.go\<close>. It is
  the nil literal, an untyped Value without address. Its kind is pointer: \<^verbatim>\<open>evalIndex\<close>
  and \<^verbatim>\<open>evalPointerDeref\<close> test for it among the Values of pointer kind. It has one child
  without address, which \<^verbatim>\<open>isNil\<close> reads when \<^verbatim>\<open>nil == nil\<close> is evaluated.
\<close>

definition nilVariable_fields :: VariableFields where
  "nilVariable_fields =
     \<lparr>Addr = 0, Name = ''nil'', DwarfType = None, RealType = None, Kind = Ptr,
      mem = MemoryReadWriter 0, Value = None, Len = 0, Cap = 0, Flags = {}, Base = 0,
      stride = 0, fieldType = None, loaded = False, Unreadable = None, DeclLine = 0,
      mapSkip = 0, reg = None\<rparr>"

definition deref :: "VarRef \<Rightarrow> Variable" where
  "deref r = (case r of
       nilVariable \<Rightarrow> Variable nilVariable_fields [Variable (nilVariable_fields\<lparr>Name := []\<rparr>) []]
     | Ref v \<Rightarrow> v)"

subsection \<open>Collaborators\<close>

text \<open>
  Modelled from the spec: \<^verbatim>\<open>LoadConfig\<close> is declared outside \<^verbatim>\<open>eval.go\<close>; the spec gives
  the bounds of a load as maximum recursion depth, array or slice elements visited,
  string length and map buckets. \<^verbatim>\<open>eval.go\<close> names the last three \<^verbatim>\<open>MaxArrayValues\<close>,
  \<^verbatim>\<open>MaxStringLen\<close> and \<^verbatim>\<open>MaxMapBuckets\<close>; they are of type \<^verbatim>\<open>int\<close>.
\<close>

record LoadConfig =
  MaxVariableRecurse :: go_int
  MaxStringLen :: go_int
  MaxArrayValues :: go_int
  MaxMapBuckets :: go_int

text \<open>
  The map iterator is a collaborator. What \<^verbatim>\<open>mapAccess\<close> sees of it is the sequence of
  entries that \<^verbatim>\<open>next\<close> steps through, each with the Values that \<^verbatim>\<open>key()\<close> and \<^verbatim>\<open>value()\<close>
  return, and the error, if any, that \<^verbatim>\<open>next\<close> stores in the map's \<^verbatim>\<open>Unreadable\<close> slot
  when it stops.
\<close>

record mapIterator =
  entries :: "(Variable \<times> Variable) list"
  stopped :: "error option"

text \<open>
  The functions and constants that \<^verbatim>\<open>eval.go\<close> uses and that are declared elsewhere are
  parameters of the model:
  \<^item> \<^verbatim>\<open>v.loadValue(cfg)\<close> fills a Value in place; \<open>loadValue\<close> returns the filled Value;
  \<^item> \<^verbatim>\<open>constant.Compare(x, op, y)\<close> returns a boolean or panics with a message;
  \<^item> \<^verbatim>\<open>v.newVariable(name, addr, typ, mem)\<close> builds a Value from name, address, type and
    memory accessor (the receiver is the first argument);
  \<^item> \<^verbatim>\<open>v.mapIterator()\<close> reads the map header into the Value (its length among the rest)
    and returns the iterator, or \<^verbatim>\<open>nil\<close>;
  \<^item> \<^verbatim>\<open>v.maybeDereference()\<close> returns the pointee of a pointer and any other Value as it is;
  \<^item> the three load configurations.
\<close>

record env =
  loadValue :: "LoadConfig \<Rightarrow> Variable \<Rightarrow> Variable"
  constant_Compare :: "constant_Value option \<Rightarrow> Token \<Rightarrow> constant_Value option \<Rightarrow> string + bool"
  newVariable :: "Variable \<Rightarrow> string \<Rightarrow> uint64 \<Rightarrow> Type option \<Rightarrow> MemoryReadWriter \<Rightarrow> Variable"
  DereferenceMemory :: "MemoryReadWriter \<Rightarrow> MemoryReadWriter"
  FakeSliceType :: "Type option \<Rightarrow> Type"
  mapIterator_of :: "Variable \<Rightarrow> Variable \<times> mapIterator option"
  maybeDereference :: "Variable \<Rightarrow> Variable"
  loadSingleValue :: LoadConfig
  loadFullValue :: LoadConfig
  loadFullValueLongerStrings :: LoadConfig

text \<open>The calls to \<^verbatim>\<open>loadValue\<close> and to the iterator's \<^verbatim>\<open>next\<close>, in the order they are made.\<close>

datatype Event = EvLoadValue LoadConfig Variable | EvNext

section \<open>Integer truncation: \<^verbatim>\<open>convertInt\<close>\<close>

text \<open>
  \<^verbatim>\<open>bits := uint64(size) * 8\<close> wraps; a Go shift by a count of 64 or more yields 0, which
  is what \<open>push_bit\<close> and \<open>drop_bit\<close> do on a 64-bit word; \<^verbatim>\<open>x &^ y\<close> is
  \<open>x AND NOT y\<close>. The parameters \<^verbatim>\<open>signed\<close> and \<^verbatim>\<open>size\<close> are written \<open>signed'\<close> and \<open>sz\<close>.
\<close>

definition convertInt :: "uint64 \<Rightarrow> bool \<Rightarrow> int64 \<Rightarrow> uint64" where
  "convertInt n signed' sz =
     (let bits = sz * 8;
          mask = push_bit (unat bits) 1 - 1;
          r = n AND mask
      in if signed' \<and> drop_bit (unat (bits - 1)) r \<noteq> 0
         then r OR (NOT 0 AND NOT mask)
         else r)"

section \<open>Library functions of \<^verbatim>\<open>go/constant\<close>\<close>

text \<open>
  \<^verbatim>\<open>constant.StringVal\<close> returns the string of a String constant and the empty string for
  an Unknown one; on anything else, \<^verbatim>\<open>nil\<close> included, it panics. \<^verbatim>\<open>constant.Int64Val\<close>
  returns the \<^verbatim>\<open>int64\<close> of an Int constant (the low 64 bits when it does not fit) and 0
  for an Unknown one, and panics otherwise. \<^verbatim>\<open>x.Kind()\<close> panics on a \<^verbatim>\<open>nil\<close> interface.
\<close>

fun StringVal :: "constant_Value option \<Rightarrow> error + string" where
  "StringVal (Some (MakeString s)) = Inr s"
| "StringVal (Some MakeUnknown) = Inr []"
| "StringVal _ = Inl (Panic ''not a String'')"

fun Int64Val :: "constant_Value option \<Rightarrow> error + int64" where
  "Int64Val (Some (MakeInt i)) = Inr (word_of_int i)"
| "Int64Val (Some MakeUnknown) = Inr 0"
| "Int64Val _ = Inl (Panic ''not an Int'')"

fun Value_Kind :: "constant_Value option \<Rightarrow> error + constant_Kind" where
  "Value_Kind None = Inl (Panic ''nil pointer dereference'')"
| "Value_Kind (Some c) = Inr (constant_Kind_of c)"

section \<open>Element access and reslicing\<close>

text \<open>
  A Go function returning \<^verbatim>\<open>(*Variable, error)\<close> returns the pair of an optional Value
  and an optional error. \<^verbatim>\<open>int64(idx)*v.stride\<close> and the addition to \<^verbatim>\<open>v.Base\<close> wrap.
\<close>

definition sliceAccess :: "env \<Rightarrow> Variable \<Rightarrow> go_int \<Rightarrow> Variable option \<times> error option" where
  "sliceAccess env v idx =
     (let wrong = (if VariableCPtr \<notin> Flags (fld v)
                   then sint idx < 0 \<or> sint idx \<ge> sint (Len (fld v))
                   else sint idx < 0)
      in if wrong then (None, Some IndexOutOfBounds)
         else if loaded (fld v) then
           (if Kind (fld v) = String then
              (case StringVal (Value (fld v)) of
                 Inl p \<Rightarrow> (None, Some p)
               | Inr s \<Rightarrow>
                   if sint idx \<ge> int (length s) then (None, Some IndexOutOfBounds)
                   else
                     let r = newVariable env v [] (Base (fld v) + idx * stride (fld v))
                               (fieldType (fld v)) (mem (fld v))
                     in (Some (Variable
                           ((fld r)\<lparr>loaded := True,
                                    Value := Some (MakeInt (of_char (s ! nat (sint idx))))\<rparr>)
                           (Children r)), None))
            else
              if sint idx \<ge> int (length (Children v)) then (None, Some IndexOutOfBounds)
              else (Some (Children v ! nat (sint idx)), None))
         else
           let mem' = (if Kind (fld v) \<noteq> Array then DereferenceMemory env (mem (fld v))
                       else mem (fld v))
           in (Some (newVariable env v [] (Base (fld v) + idx * stride (fld v))
                      (fieldType (fld v)) mem'), None))"

definition reslice :: "env \<Rightarrow> Variable \<Rightarrow> int64 \<Rightarrow> int64 \<Rightarrow> Variable option \<times> error option" where
  "reslice env v low high0 =
     (let cptr = (VariableCPtr \<in> Flags (fld v));
          wrong = (if \<not> cptr
                   then sint low < 0 \<or> sint low > sint (Len (fld v)) \<or>
                        sint high0 < 0 \<or> sint high0 > sint (Len (fld v))
                   else sint low < 0 \<or> sint high0 < 0);
          high = (if cptr \<and> high0 = 0 then low else high0);
          cptrNeedsFakeSlice = (cptr \<and> Kind (fld v) \<noteq> String)
      in if wrong then (None, Some IndexOutOfBounds)
         else
           let base = Base (fld v) + low * stride (fld v);
               len = high - low
           in if sint (high - low) < 0 then (None, Some IndexOutOfBounds)
              else
                let isarr = (case DwarfType (fld v) of Some (ArrayType _ _ _) \<Rightarrow> True | _ \<Rightarrow> False);
                    typ = (if isarr \<or> cptrNeedsFakeSlice
                           then Some (FakeSliceType env (fieldType (fld v)))
                           else DwarfType (fld v));
                    mem' = (if Kind (fld v) \<noteq> Array then DereferenceMemory env (mem (fld v))
                            else mem (fld v));
                    r = newVariable env v [] 0 typ mem'
                in (Some (Variable
                      ((fld r)\<lparr>Cap := len, Len := len, Base := base,
                               stride := stride (fld v), fieldType := fieldType (fld v),
                               Flags := Flags (fld v), reg := reg (fld v)\<rparr>)
                      (Children r)), None))"

section \<open>Comparison\<close>

text \<open>
  \<^verbatim>\<open>constantCompare\<close> recovers a panic of \<^verbatim>\<open>constant.Compare\<close> and returns it as an error.
  A Go function returning \<^verbatim>\<open>(bool, error)\<close> returns the pair.
\<close>

definition constantCompare ::
  "env \<Rightarrow> Token \<Rightarrow> constant_Value option \<Rightarrow> constant_Value option \<Rightarrow> bool \<times> error option" where
  "constantCompare env op x y =
     (case constant_Compare env x op y of
        Inr r \<Rightarrow> (r, None)
      | Inl ierr \<Rightarrow> (False, Some (Recovered ierr)))"

text \<open>\<^verbatim>\<open>v.Children[0]\<close> panics when there is no child.\<close>

definition isNil :: "Variable \<Rightarrow> error + bool" where
  "isNil v =
     (if Kind (fld v) = Ptr then
        (case Children v of
           [] \<Rightarrow> Inl (Panic ''index out of range'')
         | c # _ \<Rightarrow> Inr (Addr (fld c) = 0))
      else if Kind (fld v) = Interface then
        (case Children v of
           [] \<Rightarrow> Inl (Panic ''index out of range'')
         | c # _ \<Rightarrow> Inr (Addr (fld c) = 0 \<and> Kind (fld c) = Invalid))
      else if Kind (fld v) \<in> {Slice, Map, Func, Chan} then Inr (Base (fld v) = 0)
      else Inr False)"

text \<open>
  The kinds of the first \<^verbatim>\<open>switch\<close> of \<^verbatim>\<open>compareOp\<close> whose Values are compared as
  constants.
\<close>

definition constantKinds :: "Kind set" where
  "constantKinds =
     {Bool, Kind.Int, Int8, Int16, Int32, Int64, Uint, Uint8, Uint16, Uint32, Uint64, Uintptr,
      Float32, Float64, Complex64, Complex128}"

text \<open>
  The string case of that \<^verbatim>\<open>switch\<close>. Two strings of different length are unequal;
  otherwise both are loaded and, when they were loaded whole, compared as constants.
  \<^verbatim>\<open>loadValue\<close> fills the Value in place: here the loaded Value is the loader's result,
  and the call is entered in the log.
\<close>

definition compareOp_String ::
  "env \<Rightarrow> Token \<Rightarrow> Variable \<Rightarrow> Variable \<Rightarrow> (bool \<times> error option) \<times> Event list" where
  "compareOp_String env op xv yv =
     (if Len (fld xv) \<noteq> Len (fld yv) \<and> op = EQL then ((False, None), [])
      else if Len (fld xv) \<noteq> Len (fld yv) \<and> op = NEQ then ((True, None), [])
      else
        let cfg = loadFullValueLongerStrings env;
            (xv', lx) = (if Kind (fld xv) = String
                         then (loadValue env cfg xv, [EvLoadValue cfg xv]) else (xv, []));
            (yv', ly) = (if Kind (fld yv) = String
                         then (loadValue env cfg yv, [EvLoadValue cfg yv]) else (yv, []))
        in case StringVal (Value (fld xv')) of
             Inl p \<Rightarrow> ((False, Some p), lx @ ly)
           | Inr sx \<Rightarrow>
               if (word_of_nat (length sx) :: int64) \<noteq> Len (fld xv')
               then ((False, Some StringTooLongForComparison), lx @ ly)
               else
                 (case StringVal (Value (fld yv')) of
                    Inl p \<Rightarrow> ((False, Some p), lx @ ly)
                  | Inr sy \<Rightarrow>
                      if (word_of_nat (length sy) :: int64) \<noteq> Len (fld yv')
                      then ((False, Some StringTooLongForComparison), lx @ ly)
                      else (constantCompare env op (Value (fld xv')) (Value (fld yv')), lx @ ly)))"

text \<open>The comparison with the nil literal: \<^verbatim>\<open>v.isNil()\<close> for \<^verbatim>\<open>==\<close>, its negation for \<^verbatim>\<open>!=\<close>.\<close>

definition compareOp_nil :: "Token \<Rightarrow> Variable \<Rightarrow> bool \<times> error option" where
  "compareOp_nil op v =
     (case isNil v of
        Inl p \<Rightarrow> (False, Some p)
      | Inr b \<Rightarrow> (if op = EQL then b else \<not> b, None))"

text \<open>
  The end of \<^verbatim>\<open>compareOp\<close>, reached by the branches that set \<^verbatim>\<open>eql\<close> and \<^verbatim>\<open>err\<close>:
  \<^verbatim>\<open>!=\<close> negates the result. The other branches return directly.
\<close>

definition compareOp_end ::
  "Token \<Rightarrow> (bool \<times> error option) \<times> Event list \<Rightarrow> (bool \<times> error option) \<times> Event list" where
  "compareOp_end op res =
     (case res of ((eql, err), l) \<Rightarrow> ((if op = NEQ then \<not> eql else eql, err), l))"

text \<open>
  \<^verbatim>\<open>compareOp\<close> and the loop of \<^verbatim>\<open>equalChildren\<close>, which runs over the children of \<open>xv\<close>
  and reads the child of \<open>yv\<close> at the same index (a panic when \<open>yv\<close> has fewer). The loop
  function takes the children not yet visited and the running conjunction \<open>r\<close>.
  The result is the returned pair and the log of the calls to \<^verbatim>\<open>loadValue\<close>.
\<close>

function compareOp ::
    "env \<Rightarrow> Token \<Rightarrow> VarRef \<Rightarrow> VarRef \<Rightarrow> (bool \<times> error option) \<times> Event list"
  and equalChildren_loop ::
    "env \<Rightarrow> Variable list \<Rightarrow> Variable list \<Rightarrow> bool \<Rightarrow> bool \<Rightarrow> (bool \<times> error option) \<times> Event list"
where
  "compareOp env op xr yr =
     (let xv = deref xr; yv = deref yr; k = Kind (fld xv) in
      if k \<in> constantKinds then (constantCompare env op (Value (fld xv)) (Value (fld yv)), [])
      else if k = String then compareOp_String env op xv yv
      else if op \<noteq> EQL \<and> op \<noteq> NEQ then ((False, Some (OperatorNotDefinedOn op k)), [])
      else if xr = nilVariable then (compareOp_nil op yv, [])
      else if yr = nilVariable then (compareOp_nil op xv, [])
      else if k = Ptr then
        (case Children xv of
           [] \<Rightarrow> ((False, Some (Panic ''index out of range'')), [])
         | cx # _ \<Rightarrow>
             (case Children yv of
                [] \<Rightarrow> ((False, Some (Panic ''index out of range'')), [])
              | cy # _ \<Rightarrow> compareOp_end op ((Addr (fld cx) = Addr (fld cy), None), [])))
      else if k = Array then
        (if (word_of_nat (length (Children xv)) :: int64) \<noteq> Len (fld xv) \<or>
            (word_of_nat (length (Children yv)) :: int64) \<noteq> Len (fld yv)
         then ((False, Some ArrayTooLongForComparison), [])
         else compareOp_end op (equalChildren_loop env (Children xv) (Children yv) True True))
      else if k = Struct then
        (if length (Children xv) \<noteq> length (Children yv) then ((False, None), [])
         else if (word_of_nat (length (Children xv)) :: int64) \<noteq> Len (fld xv) \<or>
                 (word_of_nat (length (Children yv)) :: int64) \<noteq> Len (fld yv)
         then ((False, Some StructureTooDeepForComparison), [])
         else compareOp_end op (equalChildren_loop env (Children xv) (Children yv) False True))
      else if k \<in> {Slice, Map, Func, Chan} then ((False, Some (CanNotCompareVariables k)), [])
      else if k = Interface then
        (case Children xv of
           [] \<Rightarrow> ((False, Some (Panic ''index out of range'')), [])
         | cx # _ \<Rightarrow>
             (case RealType (fld cx) of
                None \<Rightarrow> ((False, Some (Panic ''nil pointer dereference'')), [])
              | Some tx \<Rightarrow>
                  (case Children yv of
                     [] \<Rightarrow> ((False, Some (Panic ''index out of range'')), [])
                   | cy # _ \<Rightarrow>
                       (case RealType (fld cy) of
                          None \<Rightarrow> ((False, Some (Panic ''nil pointer dereference'')), [])
                        | Some ty \<Rightarrow>
                            if Type_String tx \<noteq> Type_String ty
                            then compareOp_end op ((False, None), [])
                            else compareOp_end op (compareOp env EQL (Ref cx) (Ref cy))))))
      else ((False, Some (UnimplementedComparison k)), []))"
| "equalChildren_loop env [] ys shortcircuit r = ((r, None), [])"
| "equalChildren_loop env (x # xs) ys shortcircuit r =
     (case ys of
        [] \<Rightarrow> ((False, Some (Panic ''index out of range'')), [])
      | y # ys' \<Rightarrow>
          (case compareOp env EQL (Ref x) (Ref y) of
             ((eql, err), l) \<Rightarrow>
               if err \<noteq> None then ((False, err), l)
               else if \<not> (r \<and> eql) \<and> shortcircuit then ((False, None), l)
               else
                 (case equalChildren_loop env xs ys' shortcircuit (r \<and> eql) of
                    (res, l') \<Rightarrow> (res, l @ l'))))"
  by pat_completeness auto

termination
proof -
  have h1: "Suc (2 * size_list size (Children v)) < 2 * size v" for v :: Variable
    by (cases v) simp
  have h2: "size c < size v" if "Children v = c # cs" for v c :: Variable and cs
    using that by (cases v) auto
  show ?thesis
    by (relation "measure (\<lambda>p. case p of
            Inl (env, op, xr, yr) \<Rightarrow> 2 * size (deref xr)
          | Inr (env, xs, ys, sc, r) \<Rightarrow> 2 * size_list size xs + 1)")
       (auto simp add: h1 h2 deref_def split: VarRef.splits)
qed

definition equalChildren ::
  "env \<Rightarrow> Variable \<Rightarrow> Variable \<Rightarrow> bool \<Rightarrow> (bool \<times> error option) \<times> Event list" where
  "equalChildren env xv yv shortcircuit =
     equalChildren_loop env (Children xv) (Children yv) shortcircuit True"

declare compareOp.simps [simp del]

section \<open>Type identity\<close>

text \<open>
  \<^verbatim>\<open>sameType\<close> strips the typedefs of both types, descends through pointer and slice
  types, and compares the printed names otherwise.
\<close>

function sameType :: "Type \<Rightarrow> Type \<Rightarrow> bool" where
  "sameType t1 t2 =
     (case resolveTypedef t1 of
        PtrType _ tt1 \<Rightarrow>
          (case resolveTypedef t2 of PtrType _ tt2 \<Rightarrow> sameType tt1 tt2 | _ \<Rightarrow> False)
      | SliceType _ e1 \<Rightarrow>
          (case resolveTypedef t2 of SliceType _ e2 \<Rightarrow> sameType e1 e2 | _ \<Rightarrow> False)
      | _ \<Rightarrow> Type_String (resolveTypedef t1) = Type_String (resolveTypedef t2))"
  by pat_completeness auto

termination
proof -
  have le: "size (resolveTypedef t) \<le> size t" for t
    by (induction t rule: resolveTypedef.induct) auto
  have p: "size tt < size t" if "resolveTypedef t = PtrType n tt" for t n tt
    using le [of t] that by simp
  have s: "size e < size t" if "resolveTypedef t = SliceType n e" for t n e
    using le [of t] that by simp
  show ?thesis
    by (relation "measure (\<lambda>(t1, t2). size t1)") (auto simp add: p s)
qed

declare sameType.simps [simp del]

text \<open>
  \<^verbatim>\<open>isType\<close>. The receiver is compared with \<^verbatim>\<open>nilVariable\<close> by identity. A typed Value
  whose \<^verbatim>\<open>RealType\<close> is \<^verbatim>\<open>nil\<close> makes \<^verbatim>\<open>sameType\<close> call \<^verbatim>\<open>String()\<close> on \<^verbatim>\<open>nil\<close>, unless the
  other type is a pointer or slice type.
\<close>

definition isType :: "VarRef \<Rightarrow> Type option \<Rightarrow> Kind \<Rightarrow> error option" where
  "isType vr typ kind =
     (let v = deref vr in
      if DwarfType (fld v) \<noteq> None then
        (case typ of
           None \<Rightarrow> Some (TypeConvErr (DwarfType (fld v)) typ)
         | Some t \<Rightarrow>
             (case RealType (fld v) of
                Some rt \<Rightarrow>
                  if \<not> sameType t rt then Some (TypeConvErr (DwarfType (fld v)) typ) else None
              | None \<Rightarrow>
                  (case resolveTypedef t of
                     PtrType _ _ \<Rightarrow> Some (TypeConvErr (DwarfType (fld v)) typ)
                   | SliceType _ _ \<Rightarrow> Some (TypeConvErr (DwarfType (fld v)) typ)
                   | _ \<Rightarrow> Some (Panic ''nil pointer dereference''))))
      else
        (case typ of
           None \<Rightarrow> None
         | Some t \<Rightarrow>
             if vr = nilVariable then
               (if kind \<in> {Slice, Map, Func, Ptr, Chan, Interface} then None
                else Some (MismatchedTypesNil (Type_String t)))
             else
               (let converr = CanNotConvertConstantTo (Value (fld v)) (Type_String t) in
                case Value (fld v) of
                  None \<Rightarrow> Some converr
                | Some c \<Rightarrow>
                    (case t of
                       IntType _ _ \<Rightarrow>
                         if constant_Kind_of c \<noteq> CInt then Some converr else None
                     | UintType _ _ \<Rightarrow>
                         if constant_Kind_of c \<noteq> CInt then Some converr else None
                     | FloatType _ _ \<Rightarrow>
                         if constant_Kind_of c \<noteq> CInt \<and> constant_Kind_of c \<noteq> CFloat
                         then Some converr else None
                     | BoolType _ \<Rightarrow>
                         if constant_Kind_of c \<noteq> CBool then Some converr else None
                     | StringType _ \<Rightarrow>
                         if constant_Kind_of c \<noteq> CString then Some converr else None
                     | ComplexType _ _ \<Rightarrow>
                         if constant_Kind_of c \<noteq> CComplex \<and> constant_Kind_of c \<noteq> CFloat \<and>
                            constant_Kind_of c \<noteq> CInt
                         then Some converr else None
                     | _ \<Rightarrow> Some converr))))"

section \<open>Conversion to an integer\<close>

text \<open>
  \<^verbatim>\<open>asInt\<close> loads a typed Value before it reads it; the Value read is the loader's
  result.
\<close>

definition asInt :: "env \<Rightarrow> Variable \<Rightarrow> int64 \<times> error option" where
  "asInt env v =
     (let chk =
        (if DwarfType (fld v) = None then
           (case Value_Kind (Value (fld v)) of
              Inl p \<Rightarrow> Inl p
            | Inr k \<Rightarrow>
                if k \<noteq> CInt then Inl (CanNotConvertConstantToInt (Value (fld v))) else Inr v)
         else
           (let v' = loadValue env (loadSingleValue env) v in
            case Unreadable (fld v') of
              Some e \<Rightarrow> Inl e
            | None \<Rightarrow>
                (case DwarfType (fld v') of
                   Some (IntType _ _) \<Rightarrow> Inr v'
                 | Some t \<Rightarrow> Inl (CanNotConvertTypeToInt (Type_String t))
                 | None \<Rightarrow> Inl (Panic ''nil pointer dereference''))))
      in case chk of
           Inl e \<Rightarrow> (0, Some e)
         | Inr v' \<Rightarrow>
             (case Int64Val (Value (fld v')) of
                Inl p \<Rightarrow> (0, Some p)
              | Inr n \<Rightarrow> (n, None)))"

section \<open>Map access\<close>

text \<open>
  The loop of \<^verbatim>\<open>mapAccess\<close> over the entries that the iterator yields. Each round is one
  call of \<^verbatim>\<open>next\<close> that returned true: the key is loaded, on the first round the index is
  type-checked against the key, then key and index are compared. The result is \<open>Some\<close>
  of what the loop returns from inside, or \<open>None\<close> when the entries are used up (the
  last call of \<^verbatim>\<open>next\<close> returned false), and the log of the calls. A string index that
  \<^verbatim>\<open>compareOp\<close> loads stays loaded in the code; here every comparison starts from the
  index as it was passed, which is the same for a loader that leaves a loaded Value as
  it is.
\<close>

fun mapAccess_loop ::
  "env \<Rightarrow> LoadConfig \<Rightarrow> VarRef \<Rightarrow> bool \<Rightarrow> (Variable \<times> Variable) list \<Rightarrow>
     (Variable option \<times> error option) option \<times> Event list" where
  "mapAccess_loop env lcfg idx first [] = (None, [EvNext])"
| "mapAccess_loop env lcfg idx first ((k, val) # es) =
     (let key = loadValue env lcfg k;
          l1 = [EvNext, EvLoadValue lcfg k]
      in case Unreadable (fld key) of
           Some e \<Rightarrow> (Some (None, Some (CanNotAccessUnreadableMap (Some e))), l1)
         | None \<Rightarrow>
             (case (if first then isType idx (RealType (fld key)) (Kind (fld key)) else None) of
                Some err \<Rightarrow> (Some (None, Some err), l1)
              | None \<Rightarrow>
                  (case compareOp env EQL (Ref key) idx of
                     ((eql, err), l2) \<Rightarrow>
                       if err \<noteq> None then (Some (None, err), l1 @ l2)
                       else if eql then (Some (Some val, None), l1 @ l2)
                       else
                         (case mapAccess_loop env lcfg idx False es of
                            (res, l3) \<Rightarrow> (res, l1 @ l2 @ l3)))))"

text \<open>
  The load configuration for the keys: \<^verbatim>\<open>loadFullValue\<close>, with the string limit raised
  to the length of the index when the index is a string that was loaded whole and is
  longer than the limit. \<^verbatim>\<open>constant.StringVal\<close> may panic.
\<close>

definition mapAccess_lcfg :: "env \<Rightarrow> Variable \<Rightarrow> error + LoadConfig" where
  "mapAccess_lcfg env i =
     (let lcfg = loadFullValue env in
      if Kind (fld i) = String then
        (case StringVal (Value (fld i)) of
           Inl p \<Rightarrow> Inl p
         | Inr s \<Rightarrow>
             if (word_of_nat (length s) :: int64) = Len (fld i) \<and>
                sint (Len (fld i)) > sint (MaxStringLen lcfg)
             then Inr (lcfg\<lparr>MaxStringLen := Len (fld i)\<rparr>)
             else Inr lcfg)
      else Inr lcfg)"

text \<open>
  \<^verbatim>\<open>mapAccess\<close>. The index is a \<^verbatim>\<open>*Variable\<close> that may be the nil literal. After the loop
  the map's \<^verbatim>\<open>Unreadable\<close> slot is the one the iterator left: what \<^verbatim>\<open>mapIterator()\<close> set,
  or the error \<^verbatim>\<open>next\<close> stopped with.
\<close>

definition mapAccess ::
  "env \<Rightarrow> Variable \<Rightarrow> VarRef \<Rightarrow> (Variable option \<times> error option) \<times> Event list" where
  "mapAccess env v idx =
     (case mapIterator_of env v of
        (v1, None) \<Rightarrow> ((None, Some (CanNotAccessUnreadableMap (Unreadable (fld v1)))), [])
      | (v1, Some it) \<Rightarrow>
          (case mapAccess_lcfg env (deref idx) of
             Inl p \<Rightarrow> ((None, Some p), [])
           | Inr lcfg \<Rightarrow>
               (case mapAccess_loop env lcfg idx True (entries it) of
                  (Some res, l) \<Rightarrow> (res, l)
                | (None, l) \<Rightarrow>
                    (case (case stopped it of Some e \<Rightarrow> Some e | None \<Rightarrow> Unreadable (fld v1)) of
                       Some e \<Rightarrow> ((None, Some e), l)
                     | None \<Rightarrow> ((None, Some KeyNotFound), l)))))"

section \<open>The operand stack\<close>

text \<open>
  The fields of \<^verbatim>\<open>evalStack\<close> that the functions below read or write. The stack is a Go
  slice: its top is the last element. An entry is a \<^verbatim>\<open>*Variable\<close> and may be \<^verbatim>\<open>nil\<close>.
  A pending call injection is a handle.
\<close>

record evalStack =
  stack :: "VarRef option list"
  fncalls :: "nat list"
  opidx :: go_int
  callInjectionContinue :: bool
  err :: "error option"

definition push :: "evalStack \<Rightarrow> VarRef option \<Rightarrow> evalStack" where
  "push s v = s\<lparr>stack := stack s @ [v]\<rparr>"

text \<open>\<^verbatim>\<open>pop\<close> and \<^verbatim>\<open>peek\<close> panic on the empty stack: the result is \<open>None\<close> then.\<close>

definition pop :: "evalStack \<Rightarrow> (VarRef option \<times> evalStack) option" where
  "pop s =
     (if stack s = [] then None
      else Some (last (stack s), s\<lparr>stack := butlast (stack s)\<rparr>))"

definition peek :: "evalStack \<Rightarrow> VarRef option option" where
  "peek s = (if stack s = [] then None else Some (last (stack s)))"

definition pushErr :: "evalStack \<Rightarrow> Variable option \<times> error option \<Rightarrow> evalStack" where
  "pushErr s res =
     (case res of (v, e) \<Rightarrow> s\<lparr>err := e, stack := stack s @ [map_option Ref v]\<rparr>)"

section \<open>The reslice instruction\<close>

text \<open>
  The instruction \<^verbatim>\<open>evalop.Reslice\<close> and the slice expression it was compiled from; an
  expression is its printed text, an absent bound is \<open>None\<close>.
\<close>

record SliceExpr =
  X :: string
  Low :: "string option"
  High :: "string option"

record Reslice =
  HasHigh :: bool
  Node :: SliceExpr

text \<open>
  \<^verbatim>\<open>evalReslice\<close>. A panic (a \<^verbatim>\<open>pop\<close> of the empty stack, a \<^verbatim>\<open>nil\<close> entry) is caught by
  the deferred \<^verbatim>\<open>recover\<close> of \<^verbatim>\<open>executeOp\<close>, which stores it in \<^verbatim>\<open>stack.err\<close>; the model
  stores it there at once. \<^verbatim>\<open>xev.mapSkip += int(low)\<close> and \<^verbatim>\<open>xev.mapIterator()\<close> change the
  map Value in place; the changed Value is the one pushed.
\<close>

definition popInt :: "env \<Rightarrow> evalStack \<Rightarrow> evalStack + (int64 \<times> evalStack)" where
  "popInt env s =
     (case pop s of
        None \<Rightarrow> Inl (s\<lparr>err := Some (Panic ''index out of range'')\<rparr>)
      | Some (None, s1) \<Rightarrow> Inl (s1\<lparr>err := Some (Panic ''nil pointer dereference'')\<rparr>)
      | Some (Some r, s1) \<Rightarrow>
          (case asInt env (deref r) of
             (n, None) \<Rightarrow> Inr (n, s1)
           | (_, Some e) \<Rightarrow> Inl (s1\<lparr>err := Some e\<rparr>)))"

definition evalReslice :: "env \<Rightarrow> Reslice \<Rightarrow> evalStack \<Rightarrow> evalStack" where
  "evalReslice env op s0 =
     (case popInt env s0 of
        Inl s \<Rightarrow> s
      | Inr (low, s1) \<Rightarrow>
          (case (if HasHigh op then popInt env s1 else Inr (0, s1)) of
             Inl s \<Rightarrow> s
           | Inr (high0, s2) \<Rightarrow>
               (case pop s2 of
                  None \<Rightarrow> s2\<lparr>err := Some (Panic ''index out of range'')\<rparr>
                | Some (None, s3) \<Rightarrow> s3\<lparr>err := Some (Panic ''nil pointer dereference'')\<rparr>
                | Some (Some xr, s3) \<Rightarrow>
                    (let xev = deref xr in
                     case Unreadable (fld xev) of
                       Some e \<Rightarrow> s3\<lparr>err := Some e\<rparr>
                     | None \<Rightarrow>
                         (let high = (if \<not> HasHigh op then Len (fld xev) else high0);
                              k = Kind (fld xev)
                          in if k \<in> {Slice, Array, String} then
                               (if Base (fld xev) = 0
                                then s3\<lparr>err := Some (CanNotSlice (X (Node op)))\<rparr>
                                else pushErr s3 (reslice env xev low high))
                             else if k = Map then
                               (if High (Node op) \<noteq> None
                                then s3\<lparr>err := Some SecondSliceArgumentMustBeEmpty\<rparr>
                                else
                                  let xev1 = Variable ((fld xev)\<lparr>mapSkip := mapSkip (fld xev) + low\<rparr>)
                                               (Children xev);
                                      xev2 = fst (mapIterator_of env xev1)
                                  in if sint (mapSkip (fld xev2)) \<ge> sint (Len (fld xev2))
                                     then s3\<lparr>err := Some MapIndexOutOfBounds\<rparr>
                                     else push s3 (Some (Ref xev2)))
                             else if k = Ptr \<and> VariableCPtr \<in> Flags (fld xev)
                             then pushErr s3 (reslice env xev low high)
                             else s3\<lparr>err := Some (CanNotSliceType (X (Node op))
                                                    (DwarfType (fld xev)))\<rparr>)))))"

section \<open>The result of an evaluation\<close>

text \<open>
  \<^verbatim>\<open>result\<close> returns the pair \<^verbatim>\<open>(r, stack.err)\<close>; it may store an error in the stack and
  load the Value \<open>r\<close> points to, which is the entry on the stack. The model returns the
  pair, the stack afterwards, and the log of the calls to \<^verbatim>\<open>loadValue\<close>. The nil literal
  stays the nil literal when it is loaded.
\<close>

definition result ::
  "env \<Rightarrow> evalStack \<Rightarrow> LoadConfig option \<Rightarrow>
     (VarRef option \<times> error option) \<times> evalStack \<times> Event list" where
  "result env s cfg =
     (let n = length (stack s);
          r = (if n = 1 then (case peek s of Some p \<Rightarrow> p | None \<Rightarrow> None) else None);
          s1 = (if n \<noteq> 0 \<and> n \<noteq> 1 \<and> err s = None
                then s\<lparr>err := Some (WrongStackSizeAtEnd n)\<rparr> else s)
      in case (r, cfg) of
           (Some rv, Some c) \<Rightarrow>
             if err s1 = None then
               (let rv' = (case rv of nilVariable \<Rightarrow> nilVariable
                                    | Ref v \<Rightarrow> Ref (loadValue env c v))
                in ((Some rv', err s1), s1\<lparr>stack := [Some rv']\<rparr>, [EvLoadValue c (deref rv)]))
             else ((r, err s1), s1, [])
         | _ \<Rightarrow> ((r, err s1), s1, []))"

section \<open>Local variables\<close>

text \<open>
  What \<^verbatim>\<open>Locals\<close> reads from its collaborators: whether the scope has a function, and the
  lexical entries visible at the program counter (or the error of reading them), each
  with its name, tag, depth, return-parameter attribute and the result of
  \<^verbatim>\<open>extractVarInfoFromEntry\<close>.
\<close>

datatype Tag = TagFormalParameter | TagVariable

record varEntry =
  AttrName :: string
  Tag :: Tag
  Depth :: go_int
  AttrVarParam :: bool
  extractVarInfo :: "error + Variable"

record EvalScope =
  Fn :: "nat option"
  varEntries :: "error + varEntry list"

definition goDictionaryName :: string where
  "goDictionaryName = ''.dict''"

text \<open>
  The loop that builds \<^verbatim>\<open>vars\<close> and \<^verbatim>\<open>depths\<close>, for a call with flags 0 (the call that
  \<^verbatim>\<open>PushLocal\<close> makes): \<^verbatim>\<open>trustArgOrder\<close> is false then and no address is synthesized.
\<close>

fun Locals_collect :: "varEntry list \<Rightarrow> (Variable \<times> go_int) list" where
  "Locals_collect [] = []"
| "Locals_collect (entry # es) =
     (if AttrName entry = goDictionaryName then Locals_collect es
      else
        (case extractVarInfo entry of
           Inl _ \<Rightarrow> Locals_collect es
         | Inr val \<Rightarrow>
             (if Tag entry = TagFormalParameter then
                (Variable ((fld val)\<lparr>Flags :=
                     insert (if AttrVarParam entry then VariableReturnArgument
                             else VariableArgument) (Flags (fld val))\<rparr>) (Children val),
                 if sint (Depth entry) \<le> 1 then 0 else Depth entry)
              else (val, Depth entry)) # Locals_collect es))"

text \<open>
  Modelled from the spec: the comparator \<^verbatim>\<open>variablesByDepthAndDeclLine\<close> is declared
  outside \<^verbatim>\<open>eval.go\<close>; the spec has the list sorted stably by lexical depth ascending, then
  by declaration line. \<^verbatim>\<open>sort.Stable\<close> is the stable sort by that key.
\<close>

definition sortByDepthAndDeclLine :: "(Variable \<times> go_int) list \<Rightarrow> (Variable \<times> go_int) list" where
  "sortByDepthAndDeclLine vds = sort_key (\<lambda>(v, d). (sint d, sint (DeclLine (fld v)))) vds"

text \<open>
  The body of the \<^verbatim>\<open>if\<close> for a name that starts with \<^verbatim>\<open>&\<close>: the Value is dereferenced
  once, renamed and flagged as escaped, and keeps its declaration line. (The location
  expression that the code carries over as well is not among the fields kept here.)
\<close>

definition Locals_escaped :: "env \<Rightarrow> Variable \<Rightarrow> Variable" where
  "Locals_escaped env v0 =
     (let name = Name (fld v0);
          declLine = DeclLine (fld v0);
          v = maybeDereference env v0;
          f1 = (if Addr (fld v) = 0 \<and> Unreadable (fld v) = None
                then (fld v)\<lparr>Unreadable := Some NoAddressForEscapedVariable\<rparr> else fld v)
      in Variable (f1\<lparr>Name := tl name, Flags := insert VariableEscaped (Flags f1),
                     DeclLine := declLine\<rparr>) (Children v))"

definition Locals_visit :: "env \<Rightarrow> Variable \<Rightarrow> Variable" where
  "Locals_visit env v0 =
     (if length (Name (fld v0)) > 1 \<and> hd (Name (fld v0)) = CHR ''&''
      then Locals_escaped env v0 else v0)"

definition setShadowed :: "Variable \<Rightarrow> Variable" where
  "setShadowed v = Variable ((fld v)\<lparr>Flags := insert VariableShadowed (Flags (fld v))\<rparr>) (Children v)"

text \<open>
  The loop over \<^verbatim>\<open>vars\<close>, from index \<open>i\<close> on. \<^verbatim>\<open>lvn\<close> maps a name to the last Value seen
  with it; a Value in \<^verbatim>\<open>vars\<close> is pointed to by its index.
\<close>

function Locals_shadow ::
  "env \<Rightarrow> nat \<Rightarrow> (string \<rightharpoonup> nat) \<Rightarrow> Variable list \<Rightarrow> Variable list" where
  "Locals_shadow env i lvn vars =
     (if i \<ge> length vars then vars
      else
        let v = Locals_visit env (vars ! i);
            vars1 = vars[i := v];
            vars2 = (case lvn (Name (fld v)) of
                       Some j \<Rightarrow> vars1[j := setShadowed (vars1 ! j)]
                     | None \<Rightarrow> vars1)
        in Locals_shadow env (Suc i) (lvn(Name (fld v) \<mapsto> i)) vars2)"
  by pat_completeness auto

termination
  by (relation "measure (\<lambda>(env, i, lvn, vars). length vars - i)")
     (auto split: option.splits)

declare Locals_shadow.simps [simp del]

definition Locals :: "env \<Rightarrow> EvalScope \<Rightarrow> Variable list \<times> error option" where
  "Locals env scope =
     (if Fn scope = None then ([], Some UnableToFindFunctionContext)
      else
        (case varEntries scope of
           Inl e \<Rightarrow> ([], Some e)
         | Inr es \<Rightarrow>
             (let vds = Locals_collect es in
              if length vds = 0 then ([], None)
              else (Locals_shadow env 0 Map.empty (map fst (sortByDepthAndDeclLine vds)), None))))"

text \<open>
  The \<^verbatim>\<open>PushLocal\<close> case of \<^verbatim>\<open>executeOp\<close>. For a frame other than 0 the scope is the one
  \<^verbatim>\<open>ConvertEvalScope\<close> returns, or its error.
\<close>

record PushLocal =
  PushLocal_Name :: string
  Frame :: int64

definition executeOp_PushLocal ::
  "env \<Rightarrow> EvalScope \<Rightarrow> error + EvalScope \<Rightarrow> PushLocal \<Rightarrow> evalStack \<Rightarrow> evalStack" where
  "executeOp_PushLocal env scope frameScope op s =
     (case (if Frame op \<noteq> 0 then frameScope else Inr scope) of
        Inl err2 \<Rightarrow> s\<lparr>err := Some err2\<rparr>
      | Inr sc \<Rightarrow>
          (case Locals env sc of
             (vars, Some e) \<Rightarrow> s\<lparr>err := Some e\<rparr>
           | (vars, None) \<Rightarrow>
               (case find (\<lambda>v. Name (fld v) = PushLocal_Name op \<and>
                                VariableShadowed \<notin> Flags (fld v)) vars of
                  Some v \<Rightarrow> push s (Some (Ref v))
                | None \<Rightarrow> s\<lparr>err := Some (CouldNotFindSymbolValue (PushLocal_Name op))\<rparr>)))"

section \<open>A concrete set of collaborators\<close>

text \<open>
  One instance of the parameters, for evaluating the functions on concrete inputs: the
  constructor stores name, address, type and accessor and leaves the rest zero; loading
  marks a Value as loaded; constants compare as described below; the map the
  iterator walks is given as a list of entries.
\<close>

fun Type_Kind :: "Type \<Rightarrow> Kind" where
  "Type_Kind (IntType _ _) = Kind.Int"
| "Type_Kind (UintType _ _) = Uint"
| "Type_Kind (FloatType _ _) = Float64"
| "Type_Kind (ComplexType _ _) = Complex128"
| "Type_Kind (BoolType _) = Bool"
| "Type_Kind (StringType _) = String"
| "Type_Kind (PtrType _ _) = Ptr"
| "Type_Kind (SliceType _ _) = Slice"
| "Type_Kind (ArrayType _ _ _) = Array"
| "Type_Kind (TypedefType _ _) = Invalid"
| "Type_Kind (MapType _) = Map"
| "Type_Kind (ChanType _) = Chan"
| "Type_Kind (StructType _) = Struct"
| "Type_Kind (InterfaceType _) = Interface"
| "Type_Kind (FuncType _) = Func"

definition zeroFields :: VariableFields where
  "zeroFields =
     \<lparr>Addr = 0, Name = [], DwarfType = None, RealType = None, Kind = Invalid,
      mem = MemoryReadWriter 0, Value = None, Len = 0, Cap = 0, Flags = {}, Base = 0,
      stride = 0, fieldType = None, loaded = False, Unreadable = None, DeclLine = 0,
      mapSkip = 0, reg = None\<rparr>"

definition test_newVariable ::
  "Variable \<Rightarrow> string \<Rightarrow> uint64 \<Rightarrow> Type option \<Rightarrow> MemoryReadWriter \<Rightarrow> Variable" where
  "test_newVariable recv name addr typ m =
     Variable (zeroFields\<lparr>Addr := addr, Name := name, DwarfType := typ,
                 RealType := map_option resolveTypedef typ,
                 Kind := (case typ of None \<Rightarrow> Invalid | Some t \<Rightarrow> Type_Kind (resolveTypedef t)),
                 mem := m\<rparr>) []"

definition test_loadValue :: "LoadConfig \<Rightarrow> Variable \<Rightarrow> Variable" where
  "test_loadValue cfg v = Variable ((fld v)\<lparr>loaded := True\<rparr>) (Children v)"

text \<open>
  The comparison of constants: numbers compare by value, an integer with a float as
  well; strings compare byte by byte; booleans and complex numbers have only \<^verbatim>\<open>==\<close> and
  \<^verbatim>\<open>!=\<close>; anything compared with an unknown constant is false; every other comparison
  panics with "invalid comparison".
\<close>

fun bytes_less :: "string \<Rightarrow> string \<Rightarrow> bool" where
  "bytes_less [] [] = False"
| "bytes_less [] (y # ys) = True"
| "bytes_less (x # xs) [] = False"
| "bytes_less (x # xs) (y # ys) =
     ((of_char x :: nat) < of_char y \<or> (x = y \<and> bytes_less xs ys))"

fun test_cmp :: "Token \<Rightarrow> bool \<Rightarrow> bool \<Rightarrow> string + bool" where
  "test_cmp op lt eq =
     (if op = EQL then Inr eq else if op = NEQ then Inr (\<not> eq)
      else if op = LSS then Inr lt else if op = LEQ then Inr (lt \<or> eq)
      else if op = GTR then Inr (\<not> lt \<and> \<not> eq) else if op = GEQ then Inr (\<not> lt)
      else Inl ''invalid comparison'')"

fun test_eq :: "Token \<Rightarrow> bool \<Rightarrow> string + bool" where
  "test_eq op eq =
     (if op = EQL then Inr eq else if op = NEQ then Inr (\<not> eq)
      else Inl ''invalid comparison'')"

fun test_Compare :: "constant_Value option \<Rightarrow> Token \<Rightarrow> constant_Value option \<Rightarrow> string + bool" where
  "test_Compare (Some MakeUnknown) op (Some b) = Inr False"
| "test_Compare (Some a) op (Some MakeUnknown) = Inr False"
| "test_Compare (Some (MakeInt a)) op (Some (MakeInt b)) = test_cmp op (a < b) (a = b)"
| "test_Compare (Some (MakeInt a)) op (Some (MakeFloat b)) =
     test_cmp op (of_int a < b) (of_int a = b)"
| "test_Compare (Some (MakeFloat a)) op (Some (MakeInt b)) =
     test_cmp op (a < of_int b) (a = of_int b)"
| "test_Compare (Some (MakeFloat a)) op (Some (MakeFloat b)) = test_cmp op (a < b) (a = b)"
| "test_Compare (Some (MakeComplex a c)) op (Some (MakeComplex b d)) =
     test_eq op (a = b \<and> c = d)"
| "test_Compare (Some (MakeComplex a c)) op (Some (MakeInt b)) =
     test_eq op (a = of_int b \<and> c = 0)"
| "test_Compare (Some (MakeInt a)) op (Some (MakeComplex b d)) =
     test_eq op (of_int a = b \<and> d = 0)"
| "test_Compare (Some (MakeComplex a c)) op (Some (MakeFloat b)) = test_eq op (a = b \<and> c = 0)"
| "test_Compare (Some (MakeFloat a)) op (Some (MakeComplex b d)) = test_eq op (a = b \<and> d = 0)"
| "test_Compare (Some (MakeString a)) op (Some (MakeString b)) =
     test_cmp op (bytes_less a b) (a = b)"
| "test_Compare (Some (MakeBool a)) op (Some (MakeBool b)) = test_eq op (a = b)"
| "test_Compare _ _ _ = Inl ''invalid comparison''"

definition test_maybeDereference :: "Variable \<Rightarrow> Variable" where
  "test_maybeDereference v =
     (if Kind (fld v) = Ptr then (case Children v of [] \<Rightarrow> v | c # _ \<Rightarrow> c) else v)"

definition test_LoadConfig :: "go_int \<Rightarrow> LoadConfig" where
  "test_LoadConfig n =
     \<lparr>MaxVariableRecurse = 1, MaxStringLen = n, MaxArrayValues = 64, MaxMapBuckets = 0\<rparr>"

definition test_env :: "(Variable \<times> Variable) list \<Rightarrow> env" where
  "test_env es =
     \<lparr>loadValue = test_loadValue,
      constant_Compare = test_Compare,
      newVariable = test_newVariable,
      DereferenceMemory = (\<lambda>m. m),
      FakeSliceType = (\<lambda>t. SliceType ''[]'' (case t of None \<Rightarrow> StructType [] | Some e \<Rightarrow> e)),
      mapIterator_of = (\<lambda>v. (Variable ((fld v)\<lparr>Len := word_of_nat (length es)\<rparr>) (Children v),
                              Some \<lparr>entries = es, stopped = None\<rparr>)),
      maybeDereference = test_maybeDereference,
      loadSingleValue = test_LoadConfig 64,
      loadFullValue = test_LoadConfig 64,
      loadFullValueLongerStrings = test_LoadConfig 1048576\<rparr>"

text \<open>Sample Values.\<close>

definition int32_type :: Type where
  "int32_type = IntType ''int32'' 4"

definition string_type :: Type where
  "string_type = StringType ''string''"

definition uint8_type :: Type where
  "uint8_type = UintType ''uint8'' 1"

text \<open>An array of five 4-byte integers at address \<open>0x1000\<close>, not loaded.\<close>

definition array5 :: Variable where
  "array5 =
     Variable (zeroFields\<lparr>Addr := 0x1000, Name := ''a'',
                 DwarfType := Some (ArrayType ''[5]int32'' int32_type 5),
                 RealType := Some (ArrayType ''[5]int32'' int32_type 5),
                 Kind := Array, Len := 5, Cap := 5, Base := 0x1000, stride := 4,
                 fieldType := Some int32_type\<rparr>) []"

text \<open>
  A string of 100 bytes at address \<open>0x2000\<close> that was loaded up to a limit of three
  bytes.
\<close>

definition long_string :: Variable where
  "long_string =
     Variable (zeroFields\<lparr>Addr := 0x2000, Name := ''s'', DwarfType := Some string_type,
                 RealType := Some string_type, Kind := String, Len := 100, Base := 0x3000,
                 stride := 1, fieldType := Some uint8_type, loaded := True,
                 Value := Some (MakeString ''abc'')\<rparr>) []"

text \<open>Two strings of different length, neither loaded; two slices; a map of two entries.\<close>

definition str3 :: Variable where
  "str3 = Variable (zeroFields\<lparr>Addr := 0x4000, Name := ''s1'', DwarfType := Some string_type,
                      RealType := Some string_type, Kind := String, Len := 3, Base := 0x4100,
                      stride := 1, fieldType := Some uint8_type\<rparr>) []"

definition str5 :: Variable where
  "str5 = Variable (zeroFields\<lparr>Addr := 0x4010, Name := ''s2'', DwarfType := Some string_type,
                      RealType := Some string_type, Kind := String, Len := 5, Base := 0x4200,
                      stride := 1, fieldType := Some uint8_type\<rparr>) []"

definition slice_type :: Type where
  "slice_type = SliceType ''[]int32'' int32_type"

definition slice_a :: Variable where
  "slice_a = Variable (zeroFields\<lparr>Addr := 0x5000, Name := ''a'', DwarfType := Some slice_type,
                         RealType := Some slice_type, Kind := Slice, Len := 2, Cap := 2,
                         Base := 0x5100, stride := 4, fieldType := Some int32_type\<rparr>) []"

definition slice_b :: Variable where
  "slice_b = Variable (zeroFields\<lparr>Addr := 0x5020, Name := ''b'', DwarfType := Some slice_type,
                         RealType := Some slice_type, Kind := Slice, Len := 2, Cap := 2,
                         Base := 0x5200, stride := 4, fieldType := Some int32_type\<rparr>) []"

definition int_const :: "int \<Rightarrow> Variable" where
  "int_const n = Variable (zeroFields\<lparr>Kind := Kind.Int, Value := Some (MakeInt n), loaded := True,
                             Flags := {VariableConstant}\<rparr>) []"

definition string_const :: "string \<Rightarrow> Variable" where
  "string_const s = Variable (zeroFields\<lparr>Kind := String, Value := Some (MakeString s),
                                Len := word_of_nat (length s), loaded := True,
                                Flags := {VariableConstant}\<rparr>) []"

definition int32_var :: "string \<Rightarrow> uint64 \<Rightarrow> int \<Rightarrow> Variable" where
  "int32_var name addr n =
     Variable (zeroFields\<lparr>Addr := addr, Name := name, DwarfType := Some int32_type,
                 RealType := Some int32_type, Kind := Int32, Value := Some (MakeInt n)\<rparr>) []"

definition map_type :: Type where
  "map_type = MapType ''map[int32]int32''"

definition map2 :: Variable where
  "map2 = Variable (zeroFields\<lparr>Addr := 0x6000, Name := ''m'', DwarfType := Some map_type,
                      RealType := Some map_type, Kind := Map, Base := 0x6100\<rparr>) []"

definition map2_entries :: "(Variable \<times> Variable) list" where
  "map2_entries =
     [(int32_var [] 0x6110 1, int32_var [] 0x6120 10),
      (int32_var [] 0x6114 2, int32_var [] 0x6124 20)]"

text \<open>Stacks and reslice instructions for a map expression \<open>m\<close>.\<close>

definition stack_of :: "VarRef option list \<Rightarrow> error option \<Rightarrow> evalStack" where
  "stack_of vs e =
     \<lparr>stack = vs, fncalls = [], opidx = 0, callInjectionContinue = False, err = e\<rparr>"

definition reslice_low_only :: Reslice where
  "reslice_low_only = \<lparr>HasHigh = False, Node = \<lparr>X = ''m'', Low = Some ''1'', High = None\<rparr>\<rparr>"

definition reslice_zero_open :: Reslice where
  "reslice_zero_open = \<lparr>HasHigh = False, Node = \<lparr>X = ''m'', Low = Some ''0'', High = None\<rparr>\<rparr>"

definition reslice_zero_zero :: Reslice where
  "reslice_zero_zero = \<lparr>HasHigh = True, Node = \<lparr>X = ''m'', Low = Some ''0'', High = Some ''0''\<rparr>\<rparr>"

text \<open>
  A function with two variables named \<open>x\<close> and a variable \<open>y\<close>: the entry read first
  is \<open>x\<close> at depth 1, declared on line 10; the second is \<open>x\<close> at depth 0, declared on
  line 12; the third is \<open>y\<close> at depth 0, declared on line 5.
\<close>

definition x_outer :: Variable where
  "x_outer = Variable (zeroFields\<lparr>Addr := 0x7000, Name := ''x'', DwarfType := Some int32_type,
                         RealType := Some int32_type, Kind := Int32, DeclLine := 12\<rparr>) []"

definition x_inner :: Variable where
  "x_inner = Variable (zeroFields\<lparr>Addr := 0x7008, Name := ''x'', DwarfType := Some int32_type,
                         RealType := Some int32_type, Kind := Int32, DeclLine := 10\<rparr>) []"

definition y_outer :: Variable where
  "y_outer = Variable (zeroFields\<lparr>Addr := 0x7010, Name := ''y'', DwarfType := Some int32_type,
                         RealType := Some int32_type, Kind := Int32, DeclLine := 5\<rparr>) []"

definition entries_xx :: "varEntry list" where
  "entries_xx =
     [\<lparr>AttrName = ''x'', Tag = TagVariable, Depth = 1, AttrVarParam = False,
       extractVarInfo = Inr x_inner\<rparr>,
      \<lparr>AttrName = ''x'', Tag = TagVariable, Depth = 0, AttrVarParam = False,
       extractVarInfo = Inr x_outer\<rparr>,
      \<lparr>AttrName = ''y'', Tag = TagVariable, Depth = 0, AttrVarParam = False,
       extractVarInfo = Inr y_outer\<rparr>]"

definition scope_xx :: EvalScope where
  "scope_xx = \<lparr>Fn = Some 0, varEntries = Inr entries_xx\<rparr>"

definition pushLocal_x :: PushLocal where
  "pushLocal_x = \<lparr>PushLocal_Name = ''x'', Frame = 0\<rparr>"

text \<open>
  A function with a formal parameter \<open>x\<close> and a variable \<open>x\<close>, both at depth 1: the
  parameter is declared on line 30, the variable on line 19.
\<close>

definition x_param :: Variable where
  "x_param = Variable (zeroFields\<lparr>Addr := 0x7100, Name := ''x'', DwarfType := Some int32_type,
                         RealType := Some int32_type, Kind := Int32, DeclLine := 30\<rparr>) []"

definition x_var :: Variable where
  "x_var = Variable (zeroFields\<lparr>Addr := 0x7108, Name := ''x'', DwarfType := Some int32_type,
                       RealType := Some int32_type, Kind := Int32, DeclLine := 19\<rparr>) []"

definition entry_param :: varEntry where
  "entry_param = \<lparr>AttrName = ''x'', Tag = TagFormalParameter, Depth = 1, AttrVarParam = False,
                   extractVarInfo = Inr x_param\<rparr>"

definition entry_var :: varEntry where
  "entry_var = \<lparr>AttrName = ''x'', Tag = TagVariable, Depth = 1, AttrVarParam = False,
                 extractVarInfo = Inr x_var\<rparr>"

definition scope_param_var :: EvalScope where
  "scope_param_var = \<lparr>Fn = Some 0, varEntries = Inr [entry_param, entry_var]\<rparr>"

chapter \<open>Properties\<close>

section \<open>\<^verbatim>\<open>convertInt\<close>\<close>

lemma bits_unat: "unat sz < 2 ^ 61 \<Longrightarrow> unat (sz * 8 :: 64 word) = 8 * unat sz"
  by (simp add: unat_word_ariths)

lemma mask_word: "push_bit b 1 - 1 = (mask b :: 64 word)"
  by (simp add: mask_eq_decr_exp)

lemma drop_top_zero: "drop_bit (b - 1) (take_bit b n :: 64 word) \<noteq> 0 \<longleftrightarrow> bit (take_bit b n) (b - 1)"
proof (cases "b = 0")
  case True
  then show ?thesis by simp
next
  case False
  have "drop_bit (b - 1) (take_bit b n) = take_bit 1 (drop_bit (b - 1) n)"
    using False by (simp add: drop_bit_take_bit)
  also have "\<dots> \<noteq> 0 \<longleftrightarrow> bit n (b - 1)"
    by (simp add: bit_iff_odd_drop_bit take_bit_eq_mod even_iff_mod_2_eq_zero)
  finally show ?thesis using False by (simp add: bit_take_bit_iff)
qed

lemma unat_bits_minus: "bits \<noteq> 0 \<Longrightarrow> unat (bits - 1 :: 64 word) = unat bits - 1"
  by (simp add: unat_minus_one)

lemma top_bit:
  "(drop_bit (unat ((bits :: 64 word) - 1)) (take_bit (unat bits) n :: 64 word) \<noteq> 0) = bit (take_bit (unat bits) n) (unat bits - 1)"
proof (cases "bits = 0")
  case True
  then show ?thesis by simp
next
  case False
  then have "unat (bits - 1) = unat bits - 1" by (rule unat_bits_minus)
  then show ?thesis by (simp only: drop_top_zero)
qed

lemma convertInt_bits:
  "convertInt n s sz =
     (let b = unat (sz * 8); r = take_bit b n
      in if s \<and> bit r (b - 1) then r OR NOT (mask b) else r)"
  unfolding convertInt_def Let_def mask_word
  by (simp add: top_bit flip: take_bit_eq_mask)

lemma signed_tb: "0 < b \<Longrightarrow>
   (if bit (take_bit b n) (b - 1) then take_bit b n OR NOT (mask b) else take_bit b n) = signed_take_bit (b - 1) (n :: 64 word)"
  by (rule bit_eqI)
     (cases b; auto simp add: bit_signed_take_bit_iff bit_take_bit_iff bit_or_iff bit_not_iff bit_mask_iff min_def less_Suc_eq_le dest: bit_imp_le_length)

lemma sint_back: "LENGTH('a::len) \<le> 64 \<Longrightarrow>
   sint (signed_take_bit (LENGTH('a) - 1) (n :: 64 word)) = sint (ucast n :: 'a word)"
  by (rule bit_eqI) (auto simp add: bit_simps min_def not_le)

lemma uint_back:
   "uint (take_bit (LENGTH('a)) (n :: 64 word)) = uint (ucast n :: 'a::len word)"
  by (simp add: unsigned_take_bit_eq unsigned_ucast_eq)

lemma sz_nat: "0 \<le> sint (sz :: 64 word) \<Longrightarrow> unat sz = nat (sint sz)"
proof -
  assume nonneg: "0 \<le> sint sz"
  have "sint sz < 2 ^ 64"
    using sint_less [of sz] by simp
  then have "take_bit 64 (sint sz) = sint sz"
    using nonneg by (simp add: take_bit_int_eq_self)
  then have "uint sz = sint sz"
    using uint_sint [of sz] by simp
  then show ?thesis by (simp add: unat_eq_nat_uint)
qed

text \<open>
  Claim C1. For a destination width of \<open>size\<close> bytes (a non-negative \<^verbatim>\<open>int64\<close> whose bit
  count \<open>8 * size\<close> does not wrap), \<open>convertInt n signed size\<close> is \<open>n\<close> masked to its low
  \<open>8 * size\<close> bits; when \<open>signed\<close> is set and the top retained bit of the masked value is
  set, all bits above the width are ones. Hence, for a width of at most 64 bits, reading
  the result back gives the two's-complement reinterpretation of \<open>n\<close> at that width:
  unsigned as \<open>uint\<close> of the narrow word, signed as \<open>sint\<close> of it.
\<close>

theorem convertInt_truncates:
  fixes n :: uint64 and sz :: int64
  assumes "0 \<le> sint sz" and "sint sz < 2 ^ 61"
  shows "(let b = 8 * nat (sint sz); r = take_bit b n in
          convertInt n False sz = r \<and>
          convertInt n True sz = (if bit r (b - 1) then r OR NOT (mask b) else r) \<and>
          (LENGTH('a::len) = b \<longrightarrow> LENGTH('a) \<le> 64 \<longrightarrow>
             uint (convertInt n False sz) = uint (ucast n :: 'a word) \<and>
             sint (convertInt n True sz) = sint (ucast n :: 'a word)))"
proof -
  have u: "unat sz = nat (sint sz)" using assms(1) by (rule sz_nat)
  with assms have "unat sz < 2 ^ 61" by (simp add: nat_less_iff)
  then have b: "unat (sz * 8) = 8 * nat (sint sz)" using u by (simp add: bits_unat)
  have t: "convertInt n s sz = (let b = 8 * nat (sint sz); r = take_bit b n
      in if s \<and> bit r (b - 1) then r OR NOT (mask b) else r)" for s
    by (simp only: convertInt_bits b)
  have readback: "uint (convertInt n False sz) = uint (ucast n :: 'a word) \<and>
             sint (convertInt n True sz) = sint (ucast n :: 'a word)"
    if "LENGTH('a) = 8 * nat (sint sz)" and "LENGTH('a) \<le> 64"
  proof -
    have "0 < 8 * nat (sint sz)" using that(1) by (metis len_gt_0)
    then have "convertInt n True sz = signed_take_bit (LENGTH('a) - 1) n"
      using signed_tb [of "8 * nat (sint sz)" n] that(1) by (simp add: t Let_def)
    moreover have "convertInt n False sz = take_bit (LENGTH('a)) n"
      using that(1) by (simp add: t Let_def)
    ultimately show ?thesis
      using that(2) sint_back [where 'a = 'a, of n] uint_back [where 'a = 'a, of n] by simp
  qed
  show ?thesis
    using readback by (simp add: t Let_def)
qed

text \<open>
  The 64-bit value \<open>-1\<close> converted to one byte: \<open>-1\<close> when signed, \<open>255\<close> when unsigned.
\<close>

theorem convertInt_truncates_witness:
  "0 \<le> sint (1 :: int64) \<and> sint (1 :: int64) < 2 ^ 61 \<and>
   convertInt (- 1) True 1 = - 1 \<and> convertInt (- 1) False 1 = 255 \<and>
   sint (convertInt (- 1) True 1) = - 1 \<and> uint (convertInt (- 1) False 1) = 255"
  using convertInt_truncates [of 1 "- 1", where 'a = 8]
  by (simp add: Let_def bit_simps mask_eq_exp_minus_1)

section \<open>\<^verbatim>\<open>sliceAccess\<close>\<close>

text \<open>
  Claim C2, as stated, has \<^verbatim>\<open>sliceAccess\<close> fail with "index out of bounds" exactly when
  \<open>idx < 0\<close> or \<open>idx \<ge> v.Len\<close>. A Value that is loaded holds only the part of its
  contents that the load limits allowed, and \<^verbatim>\<open>sliceAccess\<close> also rejects an index beyond
  that part: the string below has length 100, three bytes of it are loaded, and index 5
  is out of bounds although \<open>0 \<le> 5 < 100\<close>.
\<close>

theorem sliceAccess_loaded_counterexample:
  "VariableCPtr \<notin> Flags (fld long_string) \<and> Kind (fld long_string) = String \<and>
   \<not> (sint (5 :: go_int) < 0 \<or> sint (Len (fld long_string)) \<le> sint (5 :: go_int)) \<and>
   sliceAccess (test_env []) long_string 5 = (None, Some IndexOutOfBounds)"
  by (simp add: sliceAccess_def long_string_def zeroFields_def Let_def)

text \<open>
  Claim C2, amended. Let \<open>oob\<close> be \<open>idx < 0 \<or> idx \<ge> v.Len\<close> when the C-pointer flag is
  off and \<open>idx < 0\<close> when it is on. \<^verbatim>\<open>sliceAccess\<close> fails with "index out of bounds"
  whenever \<open>oob\<close> holds. For a Value that is not loaded this is the only failure, and
  otherwise the result is a child Value at address \<open>v.Base + idx * stride\<close> (for every
  constructor of Values that stores the address it is given). For a loaded Value an
  index at or beyond the loaded bytes of a string, or the loaded children of an array or
  slice, is out of bounds as well; below that, a string yields a loaded byte constant at
  address \<open>v.Base + idx * stride\<close>, and an array or slice yields its child \<open>idx\<close>.
\<close>

theorem sliceAccess_spec:
  assumes nv: "\<And>recv name a t m. Addr (fld (newVariable env recv name a t m)) = a"
  shows
   "(let f = fld v;
         oob = (if VariableCPtr \<notin> Flags f then sint idx < 0 \<or> sint (Len f) \<le> sint idx
                else sint idx < 0);
         res = sliceAccess env v idx
     in (oob \<longrightarrow> res = (None, Some IndexOutOfBounds)) \<and>
        (\<not> loaded f \<longrightarrow>
           (snd res = Some IndexOutOfBounds \<longleftrightarrow> oob) \<and>
           (\<not> oob \<longrightarrow> (\<exists>c. res = (Some c, None) \<and> Addr (fld c) = Base f + idx * stride f))) \<and>
        (loaded f \<and> \<not> oob \<and> Kind f = String \<longrightarrow>
           (\<forall>s. StringVal (Value f) = Inr s \<longrightarrow>
              (if int (length s) \<le> sint idx then res = (None, Some IndexOutOfBounds)
               else \<exists>c. res = (Some c, None) \<and> Addr (fld c) = Base f + idx * stride f \<and>
                        loaded (fld c) \<and>
                        Value (fld c) = Some (MakeInt (of_char (s ! nat (sint idx))))))) \<and>
        (loaded f \<and> \<not> oob \<and> Kind f \<noteq> String \<longrightarrow>
           (if int (length (Children v)) \<le> sint idx then res = (None, Some IndexOutOfBounds)
            else res = (Some (Children v ! nat (sint idx)), None))))"
  using nv by (auto simp add: sliceAccess_def Let_def)

text \<open>
  Element 2 of the array of five 4-byte integers at \<open>0x1000\<close> is at \<open>0x1008\<close>; index 5
  is out of bounds.
\<close>

theorem sliceAccess_spec_witness:
  "VariableCPtr \<notin> Flags (fld array5) \<and> \<not> loaded (fld array5) \<and>
   snd (sliceAccess (test_env []) array5 2) = None \<and>
   Addr (fld (the (fst (sliceAccess (test_env []) array5 2)))) = 0x1008 \<and>
   sliceAccess (test_env []) array5 5 = (None, Some IndexOutOfBounds)"
proof -
  have nv: "\<And>recv name a t m. Addr (fld (newVariable (test_env []) recv name a t m)) = a"
    by (simp add: test_env_def test_newVariable_def zeroFields_def)
  have a: "fld array5 = zeroFields\<lparr>Addr := 0x1000, Name := ''a'',
                 DwarfType := Some (ArrayType ''[5]int32'' int32_type 5),
                 RealType := Some (ArrayType ''[5]int32'' int32_type 5),
                 Kind := Array, Len := 5, Cap := 5, Base := 0x1000, stride := 4,
                 fieldType := Some int32_type\<rparr>"
    by (simp add: array5_def)
  show ?thesis
    using sliceAccess_spec [of "test_env []" array5 2, OF nv]
          sliceAccess_spec [of "test_env []" array5 5, OF nv]
    by (auto simp add: a zeroFields_def Let_def)
qed

section \<open>\<^verbatim>\<open>reslice\<close>\<close>

lemma sint_diff:
  fixes lo hi :: "64 word"
  assumes "0 \<le> sint lo" and "sint lo \<le> sint hi"
  shows "sint (hi - lo) = sint hi - sint lo"
proof -
  have "sint hi < 2 ^ 63" using sint_less [of hi] by simp
  then have "- (2 ^ 63) \<le> sint hi - sint lo" and "sint hi - sint lo < 2 ^ 63"
    using assms by simp_all
  then have "signed_take_bit 63 (sint hi - sint lo) = sint hi - sint lo"
    by (rule signed_take_bit_int_eq_self)
  then show ?thesis by (simp add: sint_word_ariths word_size)
qed

text \<open>
  Claim C3. For bounds \<open>0 \<le> lo \<le> hi \<le> v.Len\<close>, \<open>reslice v lo hi\<close> succeeds with some
  \<open>r\<close>, and \<open>reslice r 0 (hi - lo)\<close> succeeds with a Value of the same base address,
  length and stride as \<open>r\<close>. This holds for every kind of Value, with or without the
  C-pointer flag, and for every constructor of Values.
\<close>

theorem reslice_idempotent:
  assumes "0 \<le> sint lo" and "sint lo \<le> sint hi" and "sint hi \<le> sint (Len (fld v))"
  shows "\<exists>r r2. reslice env v lo hi = (Some r, None) \<and>
           reslice env r 0 (hi - lo) = (Some r2, None) \<and>
           Base (fld r2) = Base (fld r) \<and> Len (fld r2) = Len (fld r) \<and>
           stride (fld r2) = stride (fld r) \<and>
           Base (fld r) = Base (fld v) + lo * stride (fld v) \<and> Len (fld r) = hi - lo \<and>
           stride (fld r) = stride (fld v)"
proof -
  have d: "sint (hi - lo) = sint hi - sint lo" using assms(1,2) by (rule sint_diff)
  have z: "hi = 0 \<Longrightarrow> lo = 0"
  proof -
    assume "hi = 0"
    then have "sint lo = 0" using assms(1,2) by simp
    then show "lo = 0" by (simp add: signed_eq_0_iff)
  qed
  show ?thesis
    using assms d z by (auto simp add: reslice_def Let_def)
qed

text \<open>
  The array of five 4-byte integers at \<open>0x1000\<close>, resliced \<open>[1:3]\<close> and then \<open>[0:2]\<close>:
  base \<open>0x1004\<close>, length 2 and stride 4 both times.
\<close>

theorem reslice_idempotent_witness:
  "0 \<le> sint (1 :: int64) \<and> sint (1 :: int64) \<le> sint (3 :: int64) \<and>
   sint (3 :: int64) \<le> sint (Len (fld array5)) \<and>
   (let r = the (fst (reslice (test_env []) array5 1 3));
        r2 = the (fst (reslice (test_env []) r 0 2))
    in snd (reslice (test_env []) array5 1 3) = None \<and>
       snd (reslice (test_env []) r 0 2) = None \<and>
       Base (fld r) = 0x1004 \<and> Len (fld r) = 2 \<and> stride (fld r) = 4 \<and>
       Base (fld r2) = 0x1004 \<and> Len (fld r2) = 2 \<and> stride (fld r2) = 4)"
proof -
  have a: "fld array5 = zeroFields\<lparr>Addr := 0x1000, Name := ''a'',
                 DwarfType := Some (ArrayType ''[5]int32'' int32_type 5),
                 RealType := Some (ArrayType ''[5]int32'' int32_type 5),
                 Kind := Array, Len := 5, Cap := 5, Base := 0x1000, stride := 4,
                 fieldType := Some int32_type\<rparr>"
    by (simp add: array5_def)
  have h: "0 \<le> sint (1 :: int64)" "sint (1 :: int64) \<le> sint (3 :: int64)"
          "sint (3 :: int64) \<le> sint (Len (fld array5))"
    by (simp_all add: a zeroFields_def)
  show ?thesis
    using reslice_idempotent [OF h, of "test_env []"] h
    by (auto simp add: a zeroFields_def Let_def)
qed

section \<open>\<^verbatim>\<open>compareOp\<close>\<close>

text \<open>
  Claim C4. When \<open>xv\<close> is a string and the lengths of \<open>xv\<close> and \<open>yv\<close> differ,
  \<^verbatim>\<open>compareOp\<close> returns false for \<^verbatim>\<open>==\<close> and true for \<^verbatim>\<open>!=\<close>, without error and without a
  call to \<^verbatim>\<open>loadValue\<close>: the log is empty.
\<close>

theorem compareOp_string_lengths:
  assumes "Kind (fld (deref xr)) = String"
      and "Len (fld (deref xr)) \<noteq> Len (fld (deref yr))"
  shows "compareOp env EQL xr yr = ((False, None), []) \<and>
         compareOp env NEQ xr yr = ((True, None), [])"
  using assms
  by (simp add: compareOp.simps [of env _ xr yr] Let_def constantKinds_def compareOp_String_def)

text \<open>Two strings of lengths 3 and 5, neither of them loaded.\<close>

theorem compareOp_string_lengths_witness:
  "Kind (fld (deref (Ref str3))) = String \<and>
   Len (fld (deref (Ref str3))) \<noteq> Len (fld (deref (Ref str5))) \<and>
   \<not> loaded (fld str3) \<and> \<not> loaded (fld str5) \<and>
   compareOp (test_env []) EQL (Ref str3) (Ref str5) = ((False, None), []) \<and>
   compareOp (test_env []) NEQ (Ref str3) (Ref str5) = ((True, None), [])"
proof -
  have h: "Kind (fld (deref (Ref str3))) = String"
          "Len (fld (deref (Ref str3))) \<noteq> Len (fld (deref (Ref str5)))"
    by (simp_all add: deref_def str3_def str5_def zeroFields_def)
  show ?thesis
    using compareOp_string_lengths [OF h, of "test_env []"] h
    by (simp add: str3_def str5_def zeroFields_def)
qed

text \<open>
  Claim C5, as stated, has every comparison of two Values of slice, map, channel or
  function kind fail with the "can not compare" error. That is the error of \<^verbatim>\<open>==\<close> and
  \<^verbatim>\<open>!=\<close>; an ordering operator is rejected before, with "operator not defined on".
\<close>

theorem compareOp_ordering_counterexample:
  "Kind (fld slice_a) = Slice \<and> Kind (fld slice_b) = Slice \<and>
   compareOp (test_env []) LSS (Ref slice_a) (Ref slice_b) =
     ((False, Some (OperatorNotDefinedOn LSS Slice)), []) \<and>
   snd (fst (compareOp (test_env []) LSS (Ref slice_a) (Ref slice_b))) \<noteq>
     Some (CanNotCompareVariables Slice)"
proof -
  have k: "Kind (fld slice_a) = Slice" "Kind (fld slice_b) = Slice"
    by (simp_all add: slice_a_def slice_b_def zeroFields_def)
  have "compareOp (test_env []) LSS (Ref slice_a) (Ref slice_b) =
          ((False, Some (OperatorNotDefinedOn LSS Slice)), [])"
    by (subst compareOp.simps) (simp add: k Let_def constantKinds_def deref_def)
  then show ?thesis using k by simp
qed

text \<open>
  Claim C5, amended. Let \<open>xv\<close> be of slice, map, channel or function kind. With \<^verbatim>\<open>==\<close> or
  \<^verbatim>\<open>!=\<close> and an operand \<open>yv\<close> that is not the nil literal, \<^verbatim>\<open>compareOp\<close> fails with
  "can not compare"; with any other operator it fails with "operator not defined on".
  Against the nil literal, on either side, \<^verbatim>\<open>==\<close> returns whether the base address of
  \<open>xv\<close> is zero and \<^verbatim>\<open>!=\<close> whether it is not. No Value is loaded.
\<close>

theorem compareOp_uncomparable:
  assumes "k \<in> {Slice, Map, Chan, Func}" and "Kind (fld xv) = k"
  shows "(op \<in> {EQL, NEQ} \<longrightarrow> yr \<noteq> nilVariable \<longrightarrow>
            compareOp env op (Ref xv) yr = ((False, Some (CanNotCompareVariables k)), [])) \<and>
         (op \<notin> {EQL, NEQ} \<longrightarrow>
            compareOp env op (Ref xv) yr = ((False, Some (OperatorNotDefinedOn op k)), [])) \<and>
         compareOp env EQL (Ref xv) nilVariable = ((Base (fld xv) = 0, None), []) \<and>
         compareOp env NEQ (Ref xv) nilVariable = ((Base (fld xv) \<noteq> 0, None), []) \<and>
         compareOp env EQL nilVariable (Ref xv) = ((Base (fld xv) = 0, None), []) \<and>
         compareOp env NEQ nilVariable (Ref xv) = ((Base (fld xv) \<noteq> 0, None), [])"
  using assms
  by (auto simp add: compareOp.simps [of env _ _ _] Let_def constantKinds_def deref_def
        nilVariable_fields_def compareOp_nil_def isNil_def)

text \<open>
  Two slices that are not nil: \<^verbatim>\<open>==\<close> fails with "can not compare"; the nil literal
  against one of them is not equal.
\<close>

theorem compareOp_uncomparable_witness:
  "Slice \<in> {Slice, Map, Chan, Func} \<and> Kind (fld slice_a) = Slice \<and> Base (fld slice_a) \<noteq> 0 \<and>
   compareOp (test_env []) EQL (Ref slice_a) (Ref slice_b) =
     ((False, Some (CanNotCompareVariables Slice)), []) \<and>
   compareOp (test_env []) EQL nilVariable (Ref slice_a) = ((False, None), []) \<and>
   compareOp (test_env []) NEQ nilVariable (Ref slice_a) = ((True, None), [])"
proof -
  have h: "Slice \<in> {Slice, Map, Chan, Func}" "Kind (fld slice_a) = Slice"
    by (simp_all add: slice_a_def zeroFields_def)
  have b: "Base (fld slice_a) \<noteq> 0"
    by (simp add: slice_a_def zeroFields_def)
  show ?thesis
    using compareOp_uncomparable [OF h, of EQL "Ref slice_b" "test_env []"] h b
    by simp
qed

section \<open>\<^verbatim>\<open>mapAccess\<close>\<close>

lemma mapAccess_loop_found:
  "mapAccess_loop env lcfg idx first es = (Some (Some val, e), l) \<Longrightarrow>
     e = None \<and> (\<exists>k. (k, val) \<in> set es \<and>
        fst (compareOp env EQL (Ref (loadValue env lcfg k)) idx) = (True, None))"
proof (induction es arbitrary: first l)
  case Nil
  then show ?case by simp
next
  case (Cons kv es)
  obtain k v where kv: "kv = (k, v)" by (cases kv)
  show ?case
    using Cons.prems
    by (auto simp add: kv Let_def split: option.splits prod.splits if_splits dest!: Cons.IH)
qed

lemma mapAccess_loop_exhaust:
  assumes "\<forall>(k, val) \<in> set es. Unreadable (fld (loadValue env lcfg k)) = None \<and>
             fst (compareOp env EQL (Ref (loadValue env lcfg k)) idx) = (False, None)"
      and "first \<longrightarrow> (case es of [] \<Rightarrow> True
              | (k, val) # _ \<Rightarrow> isType idx (RealType (fld (loadValue env lcfg k)))
                                       (Kind (fld (loadValue env lcfg k))) = None)"
  shows "fst (mapAccess_loop env lcfg idx first es) = None"
  using assms
proof (induction es arbitrary: first)
  case Nil
  then show ?case by simp
next
  case (Cons kv es)
  obtain k v where kv: "kv = (k, v)" by (cases kv)
  have "fst (mapAccess_loop env lcfg idx False es) = None"
    using Cons.prems(1) by (intro Cons.IH) auto
  then show ?case
    using Cons.prems
    by (auto simp add: kv Let_def split: option.splits prod.splits if_splits)
qed

text \<open>
  Claim C6. Let the map have an iterator over the entries \<open>entries it\<close>, and let \<open>lcfg\<close> be
  the load configuration for its keys.
  \<^item> If the first key is readable and the index does not have the key's type, \<^verbatim>\<open>mapAccess\<close>
    returns the error of \<^verbatim>\<open>isType\<close>, and all that has happened by then is the first call
    of \<^verbatim>\<open>next\<close> and the load of the first key: no comparison, no second \<^verbatim>\<open>next\<close>.
  \<^item> If every key is readable and compares unequal to the index (and the index has the
    type of the first key), and the iterator stops without error, \<^verbatim>\<open>mapAccess\<close> returns
    "key not found".
  \<^item> A Value that \<^verbatim>\<open>mapAccess\<close> returns is the value of an entry whose key compared equal to
    the index: none is made up.
\<close>

theorem mapAccess_spec:
  assumes it: "mapIterator_of env v = (v1, Some it)"
      and cfg: "mapAccess_lcfg env (deref idx) = Inr lcfg"
  shows
    "(\<forall>k val es e.
        entries it = (k, val) # es \<longrightarrow>
        Unreadable (fld (loadValue env lcfg k)) = None \<longrightarrow>
        isType idx (RealType (fld (loadValue env lcfg k))) (Kind (fld (loadValue env lcfg k))) = Some e \<longrightarrow>
        mapAccess env v idx = ((None, Some e), [EvNext, EvLoadValue lcfg k])) \<and>
     ((\<forall>(k, val) \<in> set (entries it).
          Unreadable (fld (loadValue env lcfg k)) = None \<and>
          fst (compareOp env EQL (Ref (loadValue env lcfg k)) idx) = (False, None)) \<longrightarrow>
      (case entries it of [] \<Rightarrow> True
       | (k, val) # _ \<Rightarrow> isType idx (RealType (fld (loadValue env lcfg k)))
                                (Kind (fld (loadValue env lcfg k))) = None) \<longrightarrow>
      stopped it = None \<longrightarrow> Unreadable (fld v1) = None \<longrightarrow>
        fst (mapAccess env v idx) = (None, Some KeyNotFound)) \<and>
     (\<forall>val e. fst (mapAccess env v idx) = (Some val, e) \<longrightarrow>
        e = None \<and> (\<exists>k. (k, val) \<in> set (entries it) \<and>
           fst (compareOp env EQL (Ref (loadValue env lcfg k)) idx) = (True, None)))"
proof (intro conjI allI impI)
  fix k val es e
  assume "entries it = (k, val) # es"
     and "Unreadable (fld (loadValue env lcfg k)) = None"
     and "isType idx (RealType (fld (loadValue env lcfg k))) (Kind (fld (loadValue env lcfg k))) = Some e"
  then show "mapAccess env v idx = ((None, Some e), [EvNext, EvLoadValue lcfg k])"
    using it cfg by (simp add: mapAccess_def Let_def)
next
  assume "\<forall>(k, val) \<in> set (entries it).
          Unreadable (fld (loadValue env lcfg k)) = None \<and>
          fst (compareOp env EQL (Ref (loadValue env lcfg k)) idx) = (False, None)"
     and "case entries it of [] \<Rightarrow> True
       | (k, val) # _ \<Rightarrow> isType idx (RealType (fld (loadValue env lcfg k)))
                                (Kind (fld (loadValue env lcfg k))) = None"
  then have "fst (mapAccess_loop env lcfg idx True (entries it)) = None"
    by (intro mapAccess_loop_exhaust) simp_all
  moreover assume "stopped it = None" and "Unreadable (fld v1) = None"
  ultimately show "fst (mapAccess env v idx) = (None, Some KeyNotFound)"
    using it cfg by (cases "mapAccess_loop env lcfg idx True (entries it)") (simp add: mapAccess_def)
next
  fix val e
  assume a: "fst (mapAccess env v idx) = (Some val, e)"
  obtain res l where r: "mapAccess_loop env lcfg idx True (entries it) = (res, l)"
    by (cases "mapAccess_loop env lcfg idx True (entries it)")
  have "res = Some (Some val, e)"
    using a it cfg r by (auto simp add: mapAccess_def split: option.splits)
  with r have "mapAccess_loop env lcfg idx True (entries it) = (Some (Some val, e), l)" by simp
  then have "e = None \<and> (\<exists>k. (k, val) \<in> set (entries it) \<and>
           fst (compareOp env EQL (Ref (loadValue env lcfg k)) idx) = (True, None))"
    by (rule mapAccess_loop_found)
  then show "e = None" and "\<exists>k. (k, val) \<in> set (entries it) \<and>
           fst (compareOp env EQL (Ref (loadValue env lcfg k)) idx) = (True, None)"
    by simp_all
qed

text \<open>
  A map from \<open>int32\<close> to \<open>int32\<close> with two entries, indexed with a string constant:
  the type error comes after one \<^verbatim>\<open>next\<close> and the load of the first key.
\<close>

theorem mapAccess_spec_witness:
  "mapIterator_of (test_env map2_entries) map2 =
     (Variable ((fld map2)\<lparr>Len := 2\<rparr>) (Children map2),
      Some \<lparr>entries = map2_entries, stopped = None\<rparr>) \<and>
   mapAccess_lcfg (test_env map2_entries) (deref (Ref (string_const ''k''))) =
     Inr (test_LoadConfig 64) \<and>
   mapAccess (test_env map2_entries) map2 (Ref (string_const ''k'')) =
     ((None, Some (CanNotConvertConstantTo (Some (MakeString ''k'')) ''int32'')),
      [EvNext, EvLoadValue (test_LoadConfig 64) (int32_var [] 0x6110 1)])"
proof -
  let ?env = "test_env map2_entries"
  have it: "mapIterator_of ?env map2 =
     (Variable ((fld map2)\<lparr>Len := 2\<rparr>) (Children map2),
      Some \<lparr>entries = map2_entries, stopped = None\<rparr>)"
    by (simp add: test_env_def map2_entries_def)
  have cfg: "mapAccess_lcfg ?env (deref (Ref (string_const ''k''))) = Inr (test_LoadConfig 64)"
    by (simp add: mapAccess_lcfg_def deref_def string_const_def zeroFields_def test_env_def
          test_LoadConfig_def Let_def)
  have e: "entries \<lparr>entries = map2_entries, stopped = None\<rparr> =
             (int32_var [] 0x6110 1, int32_var [] 0x6120 10) #
             [(int32_var [] 0x6114 2, int32_var [] 0x6124 20)]"
    by (simp add: map2_entries_def)
  have u: "Unreadable (fld (loadValue ?env (test_LoadConfig 64) (int32_var [] 0x6110 1))) = None"
    by (simp add: test_env_def test_loadValue_def int32_var_def zeroFields_def)
  have t: "isType (Ref (string_const ''k''))
             (RealType (fld (loadValue ?env (test_LoadConfig 64) (int32_var [] 0x6110 1))))
             (Kind (fld (loadValue ?env (test_LoadConfig 64) (int32_var [] 0x6110 1)))) =
           Some (CanNotConvertConstantTo (Some (MakeString ''k'')) ''int32'')"
    by (simp add: isType_def deref_def string_const_def test_env_def test_loadValue_def
          int32_var_def zeroFields_def int32_type_def Let_def)
  show ?thesis
    using mapAccess_spec [OF it cfg] it cfg e u t by blast
qed

section \<open>\<^verbatim>\<open>evalReslice\<close> on a map\<close>

text \<open>
  What \<^verbatim>\<open>evalReslice\<close> does with a readable Value of map kind, under the integer operands
  on the stack. With a high bound in the expression it stores "second slice argument
  must be empty for maps". With a low bound only, \<open>low\<close> is added to the map's count of
  entries to skip, the iterator reads the map's length, and the instruction stores "map
  index out of bounds" when the count has reached the length; otherwise it pushes the
  map, which is the same map with more entries to skip, not a sub-map. When the iterator
  leaves the skip count alone, the count compared is the old count plus \<open>low\<close>.
\<close>

lemma evalReslice_map:
  assumes low: "asInt env (deref lowr) = (low, None)"
      and xev: "Kind (fld xev) = Map" "Unreadable (fld xev) = None"
  shows
    "(High (Node op) \<noteq> None \<longrightarrow> HasHigh op \<longrightarrow> asInt env (deref highr) = (high, None) \<longrightarrow>
        evalReslice env op (s\<lparr>stack := rest @ [Some (Ref xev), Some highr, Some lowr]\<rparr>) =
          s\<lparr>stack := rest, err := Some SecondSliceArgumentMustBeEmpty\<rparr>) \<and>
     (High (Node op) = None \<longrightarrow> \<not> HasHigh op \<longrightarrow>
        (let xev2 = fst (mapIterator_of env
                      (Variable ((fld xev)\<lparr>mapSkip := mapSkip (fld xev) + low\<rparr>) (Children xev)))
         in evalReslice env op (s\<lparr>stack := rest @ [Some (Ref xev), Some lowr]\<rparr>) =
              (if sint (Len (fld xev2)) \<le> sint (mapSkip (fld xev2))
               then s\<lparr>stack := rest, err := Some MapIndexOutOfBounds\<rparr>
               else s\<lparr>stack := rest @ [Some (Ref xev2)]\<rparr>) \<and>
            ((\<forall>w. mapSkip (fld (fst (mapIterator_of env w))) = mapSkip (fld w)) \<longrightarrow>
               mapSkip (fld xev2) = mapSkip (fld xev) + low)))"
  using assms
  by (auto simp add: evalReslice_def popInt_def pop_def push_def Let_def deref_def butlast_append)

text \<open>
  On the map of two entries, \<open>m[1:]\<close> pushes the map with one entry to skip, and
  \<open>m[2:]\<close> is out of bounds.
\<close>

lemma evalReslice_map_example:
  "asInt (test_env map2_entries) (deref (Ref (int_const 1))) = (1, None) \<and>
   Kind (fld map2) = Map \<and> Unreadable (fld map2) = None \<and>
   evalReslice (test_env map2_entries) reslice_low_only
     (stack_of [Some (Ref map2), Some (Ref (int_const 1))] None) =
   stack_of [Some (Ref (Variable ((fld map2)\<lparr>mapSkip := 1, Len := 2\<rparr>) []))] None \<and>
   evalReslice (test_env map2_entries) reslice_low_only
     (stack_of [Some (Ref map2), Some (Ref (int_const 2))] None) =
   stack_of [] (Some MapIndexOutOfBounds)"
proof -
  let ?env = "test_env map2_entries"
  have a: "asInt ?env (deref (Ref (int_const n))) = (word_of_int n, None)" for n
    by (simp add: asInt_def deref_def int_const_def zeroFields_def Let_def)
  have m: "Kind (fld map2) = Map" "Unreadable (fld map2) = None"
    by (simp_all add: map2_def zeroFields_def)
  have s: "stack_of (rest @ vs) None = (stack_of [] None)\<lparr>stack := rest @ vs\<rparr>" for rest vs
    by (simp add: stack_of_def)
  show ?thesis
    using evalReslice_map [OF a [of 1] m, where op = reslice_low_only and s = "stack_of [] None"
            and rest = "[]"]
          evalReslice_map [OF a [of 2] m, where op = reslice_low_only and s = "stack_of [] None"
            and rest = "[]"]
          a [of 1] m
    by (simp add: reslice_low_only_def stack_of_def test_env_def map2_entries_def map2_def
          zeroFields_def Let_def)
qed

text \<open>
  Claim C7. The claim is met by the code in its first and last parts (the lemma above):
  a high bound is an error, a low bound skips entries, and a skip count that reaches the
  length is out of bounds. The claim also gives \<open>[0:0]\<close> the meaning "the whole map", as
  the comment above \<^verbatim>\<open>evalReslice\<close> does ("slicing a map expression with [0:0] will
  return the whole map"). There the code departs from its comment: on the map of two
  entries the instruction for \<open>m[0:0]\<close> stores "second slice argument must be empty for
  maps" and pushes nothing, while the instruction for \<open>m[0:]\<close> pushes the whole map,
  with no entry to skip.
\<close>

theorem evalReslice_zero_zero_rejected:
  "evalReslice (test_env map2_entries) reslice_zero_zero
     (stack_of [Some (Ref map2), Some (Ref (int_const 0)), Some (Ref (int_const 0))] None) =
   stack_of [] (Some SecondSliceArgumentMustBeEmpty) \<and>
   evalReslice (test_env map2_entries) reslice_zero_open
     (stack_of [Some (Ref map2), Some (Ref (int_const 0))] None) =
   stack_of [Some (Ref (Variable ((fld map2)\<lparr>mapSkip := 0, Len := 2\<rparr>) []))] None"
  by (simp add: evalReslice_def popInt_def pop_def push_def asInt_def deref_def Let_def
        stack_of_def reslice_zero_zero_def reslice_zero_open_def int_const_def map2_def
        zeroFields_def test_env_def map2_entries_def)

section \<open>\<^verbatim>\<open>result\<close>\<close>

text \<open>
  Claim C9. When no error is recorded, \<^verbatim>\<open>result\<close> returns no Value and no error for the
  empty stack; the one Value (loaded, when a load configuration is given) and no error
  for a stack of one entry; and no Value and the "wrong stack size" error for a stack of
  two or more.
\<close>

theorem result_no_error:
  assumes "err s = None"
  shows "(stack s = [] \<longrightarrow> fst (result env s cfg) = (None, None)) \<and>
         (\<forall>r. stack s = [r] \<longrightarrow>
            fst (result env s cfg) =
              ((case (r, cfg) of
                  (Some (Ref v), Some c) \<Rightarrow> Some (Ref (loadValue env c v))
                | _ \<Rightarrow> r), None)) \<and>
         (2 \<le> length (stack s) \<longrightarrow>
            fst (result env s cfg) = (None, Some (WrongStackSizeAtEnd (length (stack s)))))"
  using assms
  by (auto simp add: result_def peek_def Let_def split: option.splits VarRef.splits)

text \<open>Stacks of no, one and two Values, without error.\<close>

theorem result_no_error_witness:
  "err (stack_of [] None) = None \<and>
   fst (result (test_env []) (stack_of [] None) None) = (None, None) \<and>
   fst (result (test_env []) (stack_of [Some (Ref slice_a)] None) None) =
     (Some (Ref slice_a), None) \<and>
   fst (result (test_env []) (stack_of [Some (Ref slice_a), Some (Ref slice_b)] None) None) =
     (None, Some (WrongStackSizeAtEnd 2))"
proof -
  have h: "err (stack_of vs None) = None" for vs
    by (simp add: stack_of_def)
  show ?thesis
    using result_no_error [OF h [of "[]"], where env = "test_env []" and cfg = None]
          result_no_error [OF h [of "[Some (Ref slice_a)]"], where env = "test_env []" and cfg = None]
          result_no_error [OF h [of "[Some (Ref slice_a), Some (Ref slice_b)]"],
            where env = "test_env []" and cfg = None]
    by (simp add: stack_of_def)
qed

text \<open>
  Claim C10. When an error is recorded, \<^verbatim>\<open>result\<close> returns that error, whatever the size
  of the stack; it leaves the stack as it is and loads no Value.
\<close>

theorem result_keeps_error:
  assumes "err s = Some e"
  shows "result env s cfg =
           ((if length (stack s) = 1 then last (stack s) else None, Some e), s, [])"
  using assms
  by (auto simp add: result_def peek_def Let_def split: option.splits VarRef.splits)

text \<open>
  With "key not found" recorded: a stack of two Values keeps the error, and a stack of
  one Value is returned without being loaded.
\<close>

theorem result_keeps_error_witness:
  "err (stack_of [Some (Ref slice_a), Some (Ref slice_b)] (Some KeyNotFound)) = Some KeyNotFound \<and>
   result (test_env []) (stack_of [Some (Ref slice_a), Some (Ref slice_b)] (Some KeyNotFound))
       (Some (test_LoadConfig 64)) =
     ((None, Some KeyNotFound),
      stack_of [Some (Ref slice_a), Some (Ref slice_b)] (Some KeyNotFound), []) \<and>
   result (test_env []) (stack_of [Some (Ref slice_a)] (Some KeyNotFound))
       (Some (test_LoadConfig 64)) =
     ((Some (Ref slice_a), Some KeyNotFound),
      stack_of [Some (Ref slice_a)] (Some KeyNotFound), [])"
proof -
  have h: "err (stack_of vs (Some KeyNotFound)) = Some KeyNotFound" for vs
    by (simp add: stack_of_def)
  show ?thesis
    using result_keeps_error [OF h [of "[Some (Ref slice_a), Some (Ref slice_b)]"],
            where env = "test_env []" and cfg = "Some (test_LoadConfig 64)"]
          result_keeps_error [OF h [of "[Some (Ref slice_a)]"],
            where env = "test_env []" and cfg = "Some (test_LoadConfig 64)"]
    by (simp add: stack_of_def)
qed

section \<open>\<^verbatim>\<open>Locals\<close> and the lookup of \<^verbatim>\<open>PushLocal\<close>\<close>

lemma setShadowed_simps:
  "Name (fld (setShadowed v)) = Name (fld v)"
  "setShadowed (setShadowed v) = setShadowed v"
  "VariableShadowed \<in> Flags (fld (setShadowed v))"
  by (simp_all add: setShadowed_def)

text \<open>
  The loop over \<^verbatim>\<open>vars\<close> keeps this invariant at index \<open>i\<close>, for the list \<open>xs\<close> it was
  started on: the Values from \<open>i\<close> on are untouched; a Value before \<open>i\<close> has been visited,
  and is flagged exactly when its name occurs again before \<open>i\<close>; \<^verbatim>\<open>lvn\<close> maps a name to its
  last occurrence before \<open>i\<close>.
\<close>

lemma Locals_shadow_inv:
  fixes xs :: "Variable list" and env :: env
  defines "W \<equiv> \<lambda>j. Locals_visit env (xs ! j)"
  defines "N \<equiv> \<lambda>j. Name (fld (Locals_visit env (xs ! j)))"
  assumes le: "i \<le> length xs"
      and len: "length vars = length xs"
      and rest: "\<forall>j. i \<le> j \<and> j < length xs \<longrightarrow> vars ! j = xs ! j"
      and seen: "\<forall>j<i. vars ! j = (if \<exists>k. j < k \<and> k < i \<and> N k = N j then setShadowed (W j) else W j)"
      and lvnNone: "\<forall>name. lvn name = None \<longleftrightarrow> (\<forall>j<i. N j \<noteq> name)"
      and lvnSome: "\<forall>name j. lvn name = Some j \<longrightarrow> j < i \<and> N j = name \<and> (\<forall>k. j < k \<and> k < i \<longrightarrow> N k \<noteq> name)"
  shows "Locals_shadow env i lvn vars =
           map (\<lambda>j. if \<exists>k. j < k \<and> k < length xs \<and> N k = N j then setShadowed (W j) else W j)
               [0..<length xs]"
  using le len rest seen lvnNone lvnSome
proof (induction "length xs - i" arbitrary: i lvn vars)
  case 0
  then have i: "i = length xs" by simp
  have "vars = map (\<lambda>j. if \<exists>k. j < k \<and> k < length xs \<and> N k = N j then setShadowed (W j) else W j)
               [0..<length xs]"
    using "0.prems"(2,4) by (intro nth_equalityI) (auto simp add: i)
  moreover have "Locals_shadow env i lvn vars = vars"
    using "0.prems"(2) by (subst Locals_shadow.simps) (simp add: i)
  ultimately show ?case by simp
next
  case (Suc d)
  then have ilt: "i < length xs" by simp
  have vi: "Locals_visit env (vars ! i) = W i"
    using Suc.prems(3) ilt by (simp add: W_def)
  define vars1 where "vars1 = vars[i := W i]"
  define vars2 where "vars2 = (case lvn (N i) of
                       Some j \<Rightarrow> vars1[j := setShadowed (vars1 ! j)]
                     | None \<Rightarrow> vars1)"
  define lvn' where "lvn' = lvn(N i \<mapsto> i)"
  have NW: "Name (fld (W j)) = N j" for j by (simp add: N_def W_def)
  have step: "Locals_shadow env i lvn vars = Locals_shadow env (Suc i) lvn' vars2"
    using ilt Suc.prems(2) unfolding vars2_def vars1_def lvn'_def
    by (simp add: Locals_shadow.simps [of env i lvn vars] vi Let_def NW)
  have len2: "length vars2 = length xs"
    using Suc.prems(2) by (simp add: vars2_def vars1_def split: option.splits)
  have rest2: "\<forall>j. Suc i \<le> j \<and> j < length xs \<longrightarrow> vars2 ! j = xs ! j"
  proof (intro allI impI)
    fix j assume j: "Suc i \<le> j \<and> j < length xs"
    then have "vars1 ! j = xs ! j"
      using Suc.prems(3) by (simp add: vars1_def)
    moreover have "vars2 ! j = vars1 ! j"
    proof (cases "lvn (N i)")
      case None
      then show ?thesis by (simp add: vars2_def)
    next
      case (Some j0)
      then have "j0 < i" using Suc.prems(6) by blast
      then show ?thesis using j Some by (simp add: vars2_def)
    qed
    ultimately show "vars2 ! j = xs ! j" by simp
  qed
  have seen2: "\<forall>j<Suc i. vars2 ! j =
      (if \<exists>k. j < k \<and> k < Suc i \<and> N k = N j then setShadowed (W j) else W j)"
  proof (intro allI impI)
    fix j assume j: "j < Suc i"
    show "vars2 ! j = (if \<exists>k. j < k \<and> k < Suc i \<and> N k = N j then setShadowed (W j) else W j)"
    proof (cases "lvn (N i)")
      case None
      then have no: "\<forall>j<i. N j \<noteq> N i" using Suc.prems(5) by blast
      have v2: "vars2 = vars1" using None by (simp add: vars2_def)
      show ?thesis
      proof (cases "j = i")
        case True
        then show ?thesis using ilt Suc.prems(2) by (auto simp add: v2 vars1_def)
      next
        case False
        then have ji: "j < i" using j by simp
        have "(\<exists>k. j < k \<and> k < Suc i \<and> N k = N j) \<longleftrightarrow> (\<exists>k. j < k \<and> k < i \<and> N k = N j)"
          using no ji by (metis less_Suc_eq)
        then show ?thesis
          using Suc.prems(4) ji by (simp add: v2 vars1_def)
      qed
    next
      case (Some j0)
      then have j0: "j0 < i" "N j0 = N i" "\<forall>k. j0 < k \<and> k < i \<longrightarrow> N k \<noteq> N i"
        using Suc.prems(6) by blast+
      have v2: "vars2 = vars1[j0 := setShadowed (vars1 ! j0)]" using Some by (simp add: vars2_def)
      show ?thesis
      proof (cases "j = i")
        case True
        then show ?thesis using ilt Suc.prems(2) j0(1) by (auto simp add: v2 vars1_def)
      next
        case False
        then have ji: "j < i" using j by simp
        have old: "vars ! j = (if \<exists>k. j < k \<and> k < i \<and> N k = N j then setShadowed (W j) else W j)"
          using Suc.prems(4) ji by simp
        show ?thesis
        proof (cases "j = j0")
          case True
          have "\<exists>k. j < k \<and> k < Suc i \<and> N k = N j"
            using True j0(1,2) by (intro exI [of _ i]) simp
          moreover have "vars2 ! j = setShadowed (vars ! j)"
            using True j0(1) ilt Suc.prems(2) by (simp add: v2 vars1_def)
          ultimately show ?thesis
            using old by (simp add: setShadowed_simps)
        next
          case False
          have "(\<exists>k. j < k \<and> k < Suc i \<and> N k = N j) \<longleftrightarrow> (\<exists>k. j < k \<and> k < i \<and> N k = N j)"
          proof
            assume "\<exists>k. j < k \<and> k < Suc i \<and> N k = N j"
            then obtain k where k: "j < k" "k < Suc i" "N k = N j" by blast
            show "\<exists>k. j < k \<and> k < i \<and> N k = N j"
            proof (cases "k = i")
              case True
              then have "N j = N i" using k(3) by simp
              then have "\<not> (j0 < j \<and> j < i)" using j0(3) by blast
              then have "j < j0" using ji False by simp
              then show ?thesis using j0(1,2) \<open>N j = N i\<close> by (intro exI [of _ j0]) simp
            next
              case False
              then show ?thesis using k by (intro exI [of _ k]) simp
            qed
          next
            assume "\<exists>k. j < k \<and> k < i \<and> N k = N j"
            then show "\<exists>k. j < k \<and> k < Suc i \<and> N k = N j" by (meson less_Suc_eq)
          qed
          moreover have "vars2 ! j = vars ! j"
            using False ji by (simp add: v2 vars1_def)
          ultimately show ?thesis using old by simp
        qed
      qed
    qed
  qed
  have none2: "\<forall>name. lvn' name = None \<longleftrightarrow> (\<forall>j<Suc i. N j \<noteq> name)"
    using Suc.prems(5) by (auto simp add: lvn'_def less_Suc_eq)
  have some2: "\<forall>name j. lvn' name = Some j \<longrightarrow>
       j < Suc i \<and> N j = name \<and> (\<forall>k. j < k \<and> k < Suc i \<longrightarrow> N k \<noteq> name)"
    using Suc.prems(6) by (auto simp add: lvn'_def less_Suc_eq split: if_splits)
  have "Locals_shadow env (Suc i) lvn' vars2 =
           map (\<lambda>j. if \<exists>k. j < k \<and> k < length xs \<and> N k = N j then setShadowed (W j) else W j)
               [0..<length xs]"
    using Suc.hyps(2) ilt len2 rest2 seen2 none2 some2
    by (intro Suc.hyps(1)) simp_all
  then show ?case by (simp add: step)
qed


lemma Locals_shadow_closed:
  "Locals_shadow env 0 Map.empty xs =
     map (\<lambda>j. if \<exists>k. j < k \<and> k < length xs \<and>
                      Name (fld (Locals_visit env (xs ! k))) = Name (fld (Locals_visit env (xs ! j)))
               then setShadowed (Locals_visit env (xs ! j)) else Locals_visit env (xs ! j))
         [0..<length xs]"
  using Locals_shadow_inv [where i = 0 and vars = xs and xs = xs and lvn = Map.empty and env = env]
  by simp

lemma Locals_value:
  assumes "Fn scope \<noteq> None" and "varEntries scope = Inr es"
  shows "Locals env scope =
           (Locals_shadow env 0 Map.empty (map fst (sortByDepthAndDeclLine (Locals_collect es))), None)"
proof (cases "Locals_collect es = []")
  case True
  then show ?thesis
    using assms by (simp add: Locals_def sortByDepthAndDeclLine_def Locals_shadow.simps [of _ 0])
next
  case False
  then show ?thesis using assms by (simp add: Locals_def Let_def)
qed

lemma find_unique_index:
  assumes "i < length xs" and "P (xs ! i)" and "\<forall>j<length xs. P (xs ! j) \<longrightarrow> j = i"
  shows "find P xs = Some (xs ! i)"
proof -
  have "\<not> P (xs ! j)" if "j < i" for j
  proof
    assume "P (xs ! j)"
    moreover have "j < length xs" using that assms(1) by simp
    ultimately have "j = i" using assms(3) by blast
    then show False using that by simp
  qed
  then have "\<exists>k<length xs. P (xs ! k) \<and> xs ! i = xs ! k \<and> (\<forall>j<k. \<not> P (xs ! j))"
    using assms(1,2) by (intro exI [of _ i]) simp
  then show ?thesis by (simp only: find_Some_iff)
qed

text \<open>
  Sorting commutes with a map, and the loop that builds \<^verbatim>\<open>vars\<close> and \<^verbatim>\<open>depths\<close> is a map
  over the entries it keeps.
\<close>

lemma insort_key_map:
  "insort_key k (f x) (map f xs) = map f (insort_key (\<lambda>e. k (f e)) x xs)"
  by (induction xs) simp_all

lemma sort_key_map:
  "sort_key k (map f xs) = map f (sort_key (\<lambda>e. k (f e)) xs)"
  by (induction xs) (simp_all add: insort_key_map)

lemma Locals_collect_eq:
  "Locals_collect es =
     map (\<lambda>e. (if Tag e = TagFormalParameter
                then Variable ((fld (projr (extractVarInfo e)))\<lparr>Flags :=
                       insert (if AttrVarParam e then VariableReturnArgument else VariableArgument)
                         (Flags (fld (projr (extractVarInfo e))))\<rparr>)
                       (Children (projr (extractVarInfo e)))
                else projr (extractVarInfo e),
                if Tag e = TagFormalParameter \<and> sint (Depth e) \<le> 1 then 0 else Depth e))
         (filter (\<lambda>e. AttrName e \<noteq> goDictionaryName \<and> \<not> isl (extractVarInfo e)) es)"
  by (induction es) (auto split: sum.splits)

lemma list_three: "length xs = 3 \<Longrightarrow> xs = [xs ! 0, xs ! 1, xs ! 2]"
  by (cases xs; cases "tl xs"; cases "tl (tl xs)") auto

text \<open>
  Claim C8, as stated, has \<^verbatim>\<open>Locals\<close> sort by lexical depth and declaration line. The
  depth that \<^verbatim>\<open>Locals\<close> sorts by is not always the entry's: a formal parameter at depth 0
  or 1 is given depth 0. In the function below the parameter \<open>x\<close> (line 30) and the
  variable \<open>x\<close> (line 19) are both at depth 1, so a sort by lexical depth and
  declaration line puts the variable first, which would then be the shadowed one.
  \<^verbatim>\<open>Locals\<close> returns the parameter first and flags it as shadowed, and \<^verbatim>\<open>PushLocal\<close> of
  \<open>x\<close> pushes the variable.
\<close>

theorem Locals_lexical_depth_counterexample:
  "sort_key (\<lambda>e. (sint (Depth e), sint (DeclLine (fld (projr (extractVarInfo e))))))
     [entry_param, entry_var] = [entry_var, entry_param] \<and>
   Locals (test_env []) scope_param_var =
     ([setShadowed (Variable ((fld x_param)\<lparr>Flags := {VariableArgument}\<rparr>) []), x_var], None) \<and>
   executeOp_PushLocal (test_env []) scope_param_var (Inr scope_param_var) pushLocal_x
     (stack_of [] None) = stack_of [Some (Ref x_var)] None"
proof -
  have v: "Locals_visit env x_var = x_var"
     "Locals_visit env (Variable ((fld x_param)\<lparr>Flags := {VariableArgument}\<rparr>) []) =
        Variable ((fld x_param)\<lparr>Flags := {VariableArgument}\<rparr>) []" for env
    by (simp_all add: Locals_visit_def x_var_def x_param_def zeroFields_def)
  have n: "Name (fld x_var) = ''x''" "Name (fld x_param) = ''x''"
    by (simp_all add: x_var_def x_param_def zeroFields_def)
  have sh: "Locals_shadow (test_env []) 0 Map.empty
              [Variable ((fld x_param)\<lparr>Flags := {VariableArgument}\<rparr>) [], x_var] =
            [setShadowed (Variable ((fld x_param)\<lparr>Flags := {VariableArgument}\<rparr>) []), x_var]"
    by (simp add: Locals_shadow.simps [of _ 0] Locals_shadow.simps [of _ "Suc 0"]
          Locals_shadow.simps [of _ "Suc (Suc 0)"] v n Let_def)
  have c: "Locals_collect [entry_param, entry_var] =
             [(Variable ((fld x_param)\<lparr>Flags := {VariableArgument}\<rparr>) [], 0), (x_var, 1)]"
    by (simp add: entry_param_def entry_var_def goDictionaryName_def x_param_def zeroFields_def)
  have d: "sint (DeclLine (fld x_var)) = 19" "sint (DeclLine (fld x_param)) = 30"
    by (simp_all add: x_var_def x_param_def zeroFields_def)
  have "Locals (test_env []) scope_param_var =
          (Locals_shadow (test_env []) 0 Map.empty
             (map fst (sortByDepthAndDeclLine (Locals_collect [entry_param, entry_var]))), None)"
    by (rule Locals_value) (simp_all add: scope_param_var_def)
  then have L: "Locals (test_env []) scope_param_var =
     ([setShadowed (Variable ((fld x_param)\<lparr>Flags := {VariableArgument}\<rparr>) []), x_var], None)"
    unfolding c by (simp add: sortByDepthAndDeclLine_def sh)
  have f: "VariableShadowed \<notin> Flags (fld x_var)"
    by (simp add: x_var_def zeroFields_def)
  have s: "sort_key (\<lambda>e. (sint (Depth e), sint (DeclLine (fld (projr (extractVarInfo e))))))
     [entry_param, entry_var] = [entry_var, entry_param]"
    by (simp add: entry_param_def entry_var_def d)
  have e: "executeOp_PushLocal (test_env []) scope_param_var (Inr scope_param_var) pushLocal_x
     (stack_of [] None) = stack_of [Some (Ref x_var)] None"
    by (simp add: executeOp_PushLocal_def L pushLocal_x_def setShadowed_simps n f push_def
          stack_of_def)
  show ?thesis using s L e by simp
qed

text \<open>
  Claim C8, amended. Let the scope that \<^verbatim>\<open>PushLocal\<close> selects (the current one for frame
  0, the converted one otherwise) have a function and the lexical entries \<open>es\<close>. The
  entries kept are those that are not the dictionary and whose extraction succeeds; the
  Value of a formal parameter gets the argument or the return-argument flag. The depth
  of an entry is its lexical depth, except that a formal parameter at depth 0 or 1 has
  depth 0. Then \<^verbatim>\<open>Locals\<close> returns, without error, one Value for each entry kept, in the
  order of the stable sort of the entries by that depth and then by declaration line
  (the list \<open>srt\<close> is sorted by the key and has the entries of equal key in the order of
  \<open>es\<close>). The Value at index \<open>i\<close> is the one of entry \<open>i\<close> of the sorted list
  (dereferenced and renamed when it escaped), with the shadowed flag added exactly when
  a Value with the same name follows it; so its shadowed flag is set exactly when a
  Value with the same name follows it or the extraction had set the flag already.
  \<^verbatim>\<open>PushLocal\<close> pushes the first Value with its name whose shadowed flag is clear: that is
  the last Value with the name when its flag is clear, and when there is no such Value
  the error is "could not find symbol value".
\<close>

theorem Locals_shadowing:
  assumes sel: "(if Frame op \<noteq> 0 then frameScope else Inr scope) = Inr sc"
      and fn: "Fn sc \<noteq> None" and es: "varEntries sc = Inr (es :: varEntry list)"
  shows
    "(let kept = filter (\<lambda>e. AttrName e \<noteq> goDictionaryName \<and> \<not> isl (extractVarInfo e)) es;
          val = (\<lambda>e::varEntry. if Tag e = TagFormalParameter
                      then Variable ((fld (projr (extractVarInfo e)))\<lparr>Flags :=
                             insert (if AttrVarParam e then VariableReturnArgument else VariableArgument)
                               (Flags (fld (projr (extractVarInfo e))))\<rparr>)
                             (Children (projr (extractVarInfo e)))
                      else projr (extractVarInfo e));
          depth = (\<lambda>e::varEntry. if Tag e = TagFormalParameter \<and> sint (Depth e) \<le> 1 then 0
                        else sint (Depth e));
          key = (\<lambda>e::varEntry. (depth e, sint (DeclLine (fld (val e)))));
          srt = sort_key key kept;
          W = (\<lambda>i. Locals_visit env (val (srt ! i)));
          vars = fst (Locals env sc);
          later = (\<lambda>i. \<exists>j. i < j \<and> j < length vars \<and> Name (fld (vars ! j)) = Name (fld (vars ! i)));
          P = (\<lambda>v. Name (fld v) = PushLocal_Name op \<and> VariableShadowed \<notin> Flags (fld v));
          notFound = s\<lparr>err := Some (CouldNotFindSymbolValue (PushLocal_Name op))\<rparr>
      in snd (Locals env sc) = None \<and> length vars = length kept \<and>
         sorted (map key srt) \<and>
         (\<forall>k. filter (\<lambda>e. key e = k) srt = filter (\<lambda>e. key e = k) kept) \<and>
         (\<forall>i<length vars.
            Name (fld (vars ! i)) = Name (fld (W i)) \<and>
            vars ! i = (if later i then setShadowed (W i) else W i) \<and>
            (VariableShadowed \<in> Flags (fld (vars ! i)) \<longleftrightarrow>
               later i \<or> VariableShadowed \<in> Flags (fld (W i)))) \<and>
         executeOp_PushLocal env scope frameScope op s =
           (case find P vars of Some v \<Rightarrow> push s (Some (Ref v)) | None \<Rightarrow> notFound) \<and>
         (\<forall>i<length vars. \<not> later i \<longrightarrow> P (vars ! i) \<longrightarrow>
            executeOp_PushLocal env scope frameScope op s = push s (Some (Ref (vars ! i)))) \<and>
         ((\<forall>i<length vars. \<not> later i \<longrightarrow> \<not> P (vars ! i)) \<longrightarrow>
            executeOp_PushLocal env scope frameScope op s = notFound))"
proof -
  define kept where "kept = filter (\<lambda>e. AttrName e \<noteq> goDictionaryName \<and> \<not> isl (extractVarInfo e)) es"
  define val where "val = (\<lambda>e::varEntry. if Tag e = TagFormalParameter
                      then Variable ((fld (projr (extractVarInfo e)))\<lparr>Flags :=
                             insert (if AttrVarParam e then VariableReturnArgument else VariableArgument)
                               (Flags (fld (projr (extractVarInfo e))))\<rparr>)
                             (Children (projr (extractVarInfo e)))
                      else projr (extractVarInfo e))"
  define depth where "depth = (\<lambda>e::varEntry. if Tag e = TagFormalParameter \<and> sint (Depth e) \<le> 1 then 0
                        else sint (Depth e))"
  define key where "key = (\<lambda>e::varEntry. (depth e, sint (DeclLine (fld (val e)))))"
  define srt where "srt = sort_key key kept"
  define W where "W = (\<lambda>i. Locals_visit env (val (srt ! i)))"
  define vars where "vars = fst (Locals env sc)"
  define later where "later = (\<lambda>i. \<exists>j. i < j \<and> j < length vars \<and>
                                  Name (fld (vars ! j)) = Name (fld (vars ! i)))"
  define P where "P = (\<lambda>v. Name (fld v) = PushLocal_Name op \<and> VariableShadowed \<notin> Flags (fld v))"
  define notFound where "notFound = s\<lparr>err := Some (CouldNotFindSymbolValue (PushLocal_Name op))\<rparr>"
  define f where "f = (\<lambda>e::varEntry. (val e, if Tag e = TagFormalParameter \<and> sint (Depth e) \<le> 1 then 0 else Depth e))"
  define xs where "xs = map val srt"
  define sh where "sh = (\<lambda>j. \<exists>k. j < k \<and> k < length xs \<and>
      Name (fld (Locals_visit env (xs ! k))) = Name (fld (Locals_visit env (xs ! j))))"
  have c: "Locals_collect es = map f kept"
    unfolding f_def val_def kept_def by (rule Locals_collect_eq)
  have k: "(\<lambda>e. (case f e of (v, d) \<Rightarrow> (sint d, sint (DeclLine (fld v))))) = key"
    by (rule ext) (simp add: f_def key_def depth_def)
  have "sortByDepthAndDeclLine (Locals_collect es) = map f srt"
    unfolding sortByDepthAndDeclLine_def c sort_key_map k srt_def by (rule refl)
  then have "map fst (sortByDepthAndDeclLine (Locals_collect es)) = xs"
    by (simp add: xs_def f_def comp_def)
  then have "Locals env sc = (Locals_shadow env 0 Map.empty xs, None)"
    using Locals_value [OF fn es, of env] by simp
  then have L: "Locals env sc =
      (map (\<lambda>j. if sh j then setShadowed (Locals_visit env (xs ! j))
                else Locals_visit env (xs ! j)) [0..<length xs], None)"
    unfolding sh_def by (simp only: Locals_shadow_closed)
  have vars_eq: "vars = map (\<lambda>j. if sh j then setShadowed (Locals_visit env (xs ! j))
                                 else Locals_visit env (xs ! j)) [0..<length xs]"
    by (simp add: vars_def L)
  have LL: "Locals env sc = (vars, None)" using L vars_eq by simp
  have len_xs: "length xs = length kept" by (simp add: xs_def srt_def)
  have len_vars: "length vars = length kept" by (simp add: vars_eq len_xs)
  have Wx: "Locals_visit env (xs ! i) = W i" if "i < length kept" for i
    using that by (simp add: W_def xs_def srt_def)
  have nth_vars: "vars ! i = (if sh i then setShadowed (W i) else W i)" if "i < length kept" for i
    using that by (simp add: vars_eq len_xs Wx)
  have name_vars: "Name (fld (vars ! i)) = Name (fld (W i))" if "i < length kept" for i
    using that by (simp add: nth_vars setShadowed_simps)
  have sh_later: "sh i \<longleftrightarrow> later i" if "i < length kept" for i
    unfolding sh_def later_def
    by (rule iff_exI) (auto simp add: len_xs len_vars name_vars Wx that)
  have flag_vars: "VariableShadowed \<in> Flags (fld (vars ! i)) \<longleftrightarrow>
                     later i \<or> VariableShadowed \<in> Flags (fld (W i))" if "i < length kept" for i
    using that sh_later [OF that] by (simp add: nth_vars setShadowed_simps)
  have sorted_part: "sorted (map key srt)"
    by (simp add: srt_def)
  have stable_part: "\<forall>k. filter (\<lambda>e. key e = k) srt = filter (\<lambda>e. key e = k) kept"
    by (simp add: srt_def sort_key_stable)
  have per_index: "\<forall>i<length vars.
            Name (fld (vars ! i)) = Name (fld (W i)) \<and>
            vars ! i = (if later i then setShadowed (W i) else W i) \<and>
            (VariableShadowed \<in> Flags (fld (vars ! i)) \<longleftrightarrow>
               later i \<or> VariableShadowed \<in> Flags (fld (W i)))"
  proof (intro allI impI conjI)
    fix i assume "i < length vars"
    then have iv: "i < length kept" by (simp add: len_vars)
    show "Name (fld (vars ! i)) = Name (fld (W i))" by (rule name_vars [OF iv])
    show "vars ! i = (if later i then setShadowed (W i) else W i)"
      using nth_vars [OF iv] sh_later [OF iv] by simp
    show "VariableShadowed \<in> Flags (fld (vars ! i)) \<longleftrightarrow>
               later i \<or> VariableShadowed \<in> Flags (fld (W i))"
      by (rule flag_vars [OF iv])
  qed
  have exec: "executeOp_PushLocal env scope frameScope op s =
           (case find P vars of Some v \<Rightarrow> push s (Some (Ref v)) | None \<Rightarrow> notFound)"
    unfolding P_def notFound_def using sel LL by (simp add: executeOp_PushLocal_def)
  have found: "\<forall>i<length vars. \<not> later i \<longrightarrow> P (vars ! i) \<longrightarrow>
            executeOp_PushLocal env scope frameScope op s = push s (Some (Ref (vars ! i)))"
  proof (intro allI impI)
    fix i
    assume i: "i < length vars" and last: "\<not> later i" and Pi: "P (vars ! i)"
    have uniq: "\<forall>j<length vars. P (vars ! j) \<longrightarrow> j = i"
    proof (intro allI impI)
      fix j assume j: "j < length vars" and Pj: "P (vars ! j)"
      have jv: "j < length kept" using j by (simp add: len_vars)
      have nl: "\<not> later j" using Pj flag_vars [OF jv] by (simp add: P_def)
      have same: "Name (fld (vars ! j)) = Name (fld (vars ! i))" using Pj Pi by (simp add: P_def)
      show "j = i"
      proof (rule ccontr)
        assume "j \<noteq> i"
        then consider "j < i" | "i < j" by linarith
        then show False
        proof cases
          case 1
          then have "later j" unfolding later_def
            using i same by (intro exI [of _ i]) simp
          then show False using nl by simp
        next
          case 2
          then have "later i" unfolding later_def
            using j same by (intro exI [of _ j]) simp
          then show False using last by simp
        qed
      qed
    qed
    have "find P vars = Some (vars ! i)"
      using i Pi uniq by (rule find_unique_index)
    then show "executeOp_PushLocal env scope frameScope op s = push s (Some (Ref (vars ! i)))"
      by (simp add: exec)
  qed
  have missing: "(\<forall>i<length vars. \<not> later i \<longrightarrow> \<not> P (vars ! i)) \<longrightarrow>
            executeOp_PushLocal env scope frameScope op s = notFound"
  proof
    assume a: "\<forall>i<length vars. \<not> later i \<longrightarrow> \<not> P (vars ! i)"
    have "\<not> P v" if vin: "v \<in> set vars" for v
    proof -
      obtain j where j: "j < length vars" and v: "v = vars ! j"
        using vin unfolding in_set_conv_nth by blast
      have jv: "j < length kept" using j by (simp add: len_vars)
      show ?thesis
      proof (cases "later j")
        case True
        then have "VariableShadowed \<in> Flags (fld (vars ! j))" using flag_vars [OF jv] by simp
        then show ?thesis by (simp add: P_def v)
      next
        case False
        then show ?thesis using a j v by simp
      qed
    qed
    then have "find P vars = None" by (simp add: find_None_iff)
    then show "executeOp_PushLocal env scope frameScope op s = notFound" by (simp add: exec)
  qed
  have main: "snd (Locals env sc) = None \<and> length vars = length kept \<and>
         sorted (map key srt) \<and>
         (\<forall>k. filter (\<lambda>e. key e = k) srt = filter (\<lambda>e. key e = k) kept) \<and>
         (\<forall>i<length vars.
            Name (fld (vars ! i)) = Name (fld (W i)) \<and>
            vars ! i = (if later i then setShadowed (W i) else W i) \<and>
            (VariableShadowed \<in> Flags (fld (vars ! i)) \<longleftrightarrow>
               later i \<or> VariableShadowed \<in> Flags (fld (W i)))) \<and>
         executeOp_PushLocal env scope frameScope op s =
           (case find P vars of Some v \<Rightarrow> push s (Some (Ref v)) | None \<Rightarrow> notFound) \<and>
         (\<forall>i<length vars. \<not> later i \<longrightarrow> P (vars ! i) \<longrightarrow>
            executeOp_PushLocal env scope frameScope op s = push s (Some (Ref (vars ! i)))) \<and>
         ((\<forall>i<length vars. \<not> later i \<longrightarrow> \<not> P (vars ! i)) \<longrightarrow>
            executeOp_PushLocal env scope frameScope op s = notFound)"
  proof (intro conjI)
    show "snd (Locals env sc) = None" by (simp add: LL)
  qed (rule len_vars sorted_part stable_part per_index exec found missing)+
  show ?thesis
    unfolding Let_def
    by (rule main [unfolded kept_def val_def depth_def key_def srt_def W_def vars_def later_def
          P_def notFound_def])
qed

text \<open>
  Three entries, read in the order \<open>x\<close> at depth 1 (line 10), \<open>x\<close> at depth 0 (line
  12), \<open>y\<close> at depth 0 (line 5). All three are returned: \<open>y\<close> first, by its line; then
  the \<open>x\<close> at depth 0, flagged as shadowed; then the \<open>x\<close> at depth 1, by its depth.
  \<^verbatim>\<open>PushLocal\<close> of \<open>x\<close> pushes the one at depth 1.
\<close>

theorem Locals_shadowing_witness:
  "(if Frame pushLocal_x \<noteq> 0 then Inr scope_xx else Inr scope_xx) = Inr scope_xx \<and>
   Fn scope_xx \<noteq> None \<and> varEntries scope_xx = Inr entries_xx \<and>
   Locals (test_env []) scope_xx = ([y_outer, setShadowed x_outer, x_inner], None) \<and>
   VariableShadowed \<in> Flags (fld (setShadowed x_outer)) \<and>
   VariableShadowed \<notin> Flags (fld x_inner) \<and>
   executeOp_PushLocal (test_env []) scope_xx (Inr scope_xx) pushLocal_x (stack_of [] None) =
     stack_of [Some (Ref x_inner)] None"
proof -
  define vars where "vars = fst (Locals (test_env []) scope_xx)"
  have sel: "(if Frame pushLocal_x \<noteq> 0 then Inr scope_xx else Inr scope_xx) = Inr scope_xx"
    by simp
  have fn: "Fn scope_xx \<noteq> None" by (simp add: scope_xx_def)
  have es: "varEntries scope_xx = Inr entries_xx" by (simp add: scope_xx_def)
  have f: "VariableShadowed \<notin> Flags (fld x_outer)" "VariableShadowed \<notin> Flags (fld x_inner)"
    by (simp_all add: x_outer_def x_inner_def zeroFields_def)
  have n: "Name (fld x_inner) = ''x''" "Name (fld x_outer) = ''x''" "Name (fld y_outer) = ''y''"
    by (simp_all add: x_inner_def x_outer_def y_outer_def zeroFields_def)
  have d: "sint (DeclLine (fld x_inner)) = 10" "sint (DeclLine (fld x_outer)) = 12"
          "sint (DeclLine (fld y_outer)) = 5"
    by (simp_all add: x_inner_def x_outer_def y_outer_def zeroFields_def)
  have v: "Locals_visit env x_outer = x_outer" "Locals_visit env x_inner = x_inner"
          "Locals_visit env y_outer = y_outer" for env
    by (simp_all add: Locals_visit_def x_outer_def x_inner_def y_outer_def zeroFields_def)
  note T = Locals_shadowing [OF sel fn es, where env = "test_env []" and s = "stack_of [] None",
             unfolded Let_def, folded vars_def]
  have snd_none: "snd (Locals (test_env []) scope_xx) = None"
    by (rule T [THEN conjunct1])
  have len: "length vars = 3"
    using T [THEN conjunct2, THEN conjunct1] by (simp add: entries_xx_def goDictionaryName_def)
  note idx = T [THEN conjunct2, THEN conjunct2, THEN conjunct2, THEN conjunct2, THEN conjunct1,
                rule_format]
  have i0: "0 < length vars" and i1: "1 < length vars" and i2: "2 < length vars"
    using len by simp_all
  have n0: "Name (fld (vars ! 0)) = ''y''"
    using idx [OF i0, THEN conjunct1]
    by (simp add: entries_xx_def goDictionaryName_def d v n)
  have n1: "Name (fld (vars ! 1)) = ''x''"
    using idx [OF i1, THEN conjunct1]
    by (simp add: entries_xx_def goDictionaryName_def d v n)
  have n2: "Name (fld (vars ! 2)) = ''x''"
    using idx [OF i2, THEN conjunct1]
    by (simp add: entries_xx_def goDictionaryName_def d v n)
  have later0: "\<not> (\<exists>j. 0 < j \<and> j < length vars \<and> Name (fld (vars ! j)) = Name (fld (vars ! 0)))"
  proof (intro notI, elim exE conjE)
    fix j assume "0 < j" and "j < length vars"
       and same: "Name (fld (vars ! j)) = Name (fld (vars ! 0))"
    then have "j = 1 \<or> j = 2" using len by arith
    then show False using same n0 n1 n2 by auto
  qed
  have later1: "\<exists>j. 1 < j \<and> j < length vars \<and> Name (fld (vars ! j)) = Name (fld (vars ! 1))"
    using i2 n1 n2 by (intro exI [of _ 2]) simp
  have later2: "\<not> (\<exists>j. 2 < j \<and> j < length vars \<and> Name (fld (vars ! j)) = Name (fld (vars ! 2)))"
    using len by auto
  have v0: "vars ! 0 = y_outer"
    using idx [OF i0, THEN conjunct2, THEN conjunct1]
    unfolding if_not_P [OF later0]
    by (simp add: entries_xx_def goDictionaryName_def d v)
  have v1: "vars ! 1 = setShadowed x_outer"
    using idx [OF i1, THEN conjunct2, THEN conjunct1]
    unfolding if_P [OF later1]
    by (simp add: entries_xx_def goDictionaryName_def d v)
  have v2: "vars ! 2 = x_inner"
    using idx [OF i2, THEN conjunct2, THEN conjunct1]
    unfolding if_not_P [OF later2]
    by (simp add: entries_xx_def goDictionaryName_def d v)
  have "vars = [vars ! 0, vars ! 1, vars ! 2]" using len by (rule list_three)
  then have vs: "vars = [y_outer, setShadowed x_outer, x_inner]" by (simp only: v0 v1 v2)
  have L: "Locals (test_env []) scope_xx = ([y_outer, setShadowed x_outer, x_inner], None)"
    using vs snd_none by (simp add: vars_def prod_eq_iff)
  note found = T [THEN conjunct2, THEN conjunct2, THEN conjunct2, THEN conjunct2, THEN conjunct2,
                  THEN conjunct2, THEN conjunct1, rule_format]
  have "executeOp_PushLocal (test_env []) scope_xx (Inr scope_xx) pushLocal_x (stack_of [] None) =
          push (stack_of [] None) (Some (Ref (vars ! 2)))"
    using i2 later2 by (rule found) (simp add: vs n f pushLocal_x_def)
  then have e: "executeOp_PushLocal (test_env []) scope_xx (Inr scope_xx) pushLocal_x
                  (stack_of [] None) = stack_of [Some (Ref x_inner)] None"
    by (simp add: vs push_def stack_of_def)
  show ?thesis
    using sel fn es L f e by (simp add: setShadowed_simps)
qed

end
